theory Spec2Isabelle
  imports Complex_Main "HOL-Library.Char_ord" "HOL-Library.List_Lexorder"
begin

section \<open>The store and the HTTP envelope\<close>

text \<open>
  The routes of the admin panel read and write five tables through parameterised SQL
  statements. A table is the list of its rows, a row is a record with one field per
  column, and a nullable column is an \<open>option\<close> (\<open>None\<close> is SQL NULL). The schema is
  not part of the sources: columns that an INSERT does not name take a fresh id from
  the table's sequence and the current time. A statement that the store refuses makes
  \<open>query\<close> throw, and every handler answers that with status 500 from its \<open>catch\<close>
  block. The payment routes and the monthly chart are modelled on the executions in
  which every statement returns; the student, group and expense routes take the store's
  refusals as a parameter, and the statement of the top-groups report is typed in the
  section on that report.

  Request fields are typed by what the statement binds: an amount is a rational, text
  is a string, and \<open>None\<close> is a field that the body leaves out (\<open>undefined\<close>). A row
  keeps a value as it was bound; what a column type does to it (a date read from its
  text, a number rounded to the scale of the column) is not modelled. The clock is a
  parameter \<open>now\<close>: the text of \<open>new Date().toISOString()\<close>, which also stands for the
  store's CURRENT_TIMESTAMP.
\<close>

type_synonym verr = "string \<times> string"

record 'd response =
  status :: nat
  success :: bool
  message :: "string option"
  errors :: "verr list"
  payload :: "'d option"

definition bad_request :: "verr list \<Rightarrow> 'd response" where
  "bad_request errs =
     \<lparr>status = 400, success = False, message = None, errors = errs, payload = None\<rparr>"

definition failure :: "nat \<Rightarrow> string \<Rightarrow> 'd response" where
  "failure code msg =
     \<lparr>status = code, success = False, message = Some msg, errors = [], payload = None\<rparr>"

definition succeeded :: "nat \<Rightarrow> string option \<Rightarrow> 'd option \<Rightarrow> 'd response" where
  "succeeded code msg d =
     \<lparr>status = code, success = True, message = msg, errors = [], payload = d\<rparr>"

record group =
  g_id :: int
  g_name :: string
  g_teacher_name :: "string option"
  g_monthly_fee :: rat
  g_created_at :: string
  g_updated_at :: string

record student =
  s_id :: int
  s_group_id :: "int option"
  s_full_name :: string
  s_phone_number :: "string option"
  s_parent_phone :: "string option"
  s_join_date :: string
  s_payment_status :: "string option"
  s_created_at :: string
  s_updated_at :: string

record payment =
  p_id :: int
  p_student_id :: int
  p_group_id :: "int option"
  p_amount :: rat
  p_payment_month :: string
  p_payment_date :: string
  p_payment_method :: string
  p_notes :: "string option"
  p_created_at :: string

record expense =
  e_id :: int
  e_title :: string
  e_amount :: rat
  e_category :: "string option"
  e_expense_date :: string
  e_expense_month :: string
  e_notes :: "string option"
  e_created_at :: string

record admin =
  a_id :: int
  a_username :: string
  a_password :: string
  a_email :: string

record store =
  groups :: "group list"
  students :: "student list"
  payments :: "payment list"
  expenses :: "expense list"
  admins :: "admin list"
  next_student_id :: int
  next_payment_id :: int
  next_expense_id :: int

subsection \<open>JavaScript and validator helpers\<close>

text \<open>
  \<open>x || d\<close> on a field that is a string or absent: \<open>undefined\<close> and the empty string
  are falsy and give \<open>d\<close>.
\<close>

definition js_or :: "string option \<Rightarrow> string option \<Rightarrow> string option" where
  "js_or x d = (case x of None \<Rightarrow> d | Some s \<Rightarrow> if s = [] then d else Some s)"

text \<open>An absent field is read as the empty string by the checks of the validator.\<close>

definition field_text :: "string option \<Rightarrow> string" where
  "field_text x = (case x of None \<Rightarrow> [] | Some s \<Rightarrow> s)"

definition is_digit :: "char \<Rightarrow> bool" where
  "is_digit c = (c \<in> set ''0123456789'')"

text \<open>\<open>matches(/^\d{4}-\d{2}$/)\<close>.\<close>

definition matches_year_month :: "string \<Rightarrow> bool" where
  "matches_year_month s =
     (case s of
        [a, b, c, d, h, m, n] \<Rightarrow>
          is_digit a \<and> is_digit b \<and> is_digit c \<and> is_digit d \<and> h = CHR ''-''
          \<and> is_digit m \<and> is_digit n
      | _ \<Rightarrow> False)"

text \<open>
  \<open>isISO8601()\<close> and the sanitizer \<open>trim()\<close> belong to the validator library, which is
  not part of the sources: the handlers take them as the parameters \<open>isISO8601\<close> and
  \<open>trim\<close>. An absent field fails \<open>isISO8601\<close>. \<open>trim()\<close> removes the white space at both
  ends of a field and writes the result back into the body.
\<close>

definition check_iso :: "(string \<Rightarrow> bool) \<Rightarrow> string option \<Rightarrow> bool" where
  "check_iso isISO8601 x = (case x of None \<Rightarrow> False | Some s \<Rightarrow> isISO8601 s)"

text \<open>\<open>isFloat({ min: 0 })\<close> on a numeric field.\<close>

definition check_float_min0 :: "rat option \<Rightarrow> bool" where
  "check_float_min0 x = (case x of None \<Rightarrow> False | Some a \<Rightarrow> 0 \<le> a)"

definition check :: "bool \<Rightarrow> string \<Rightarrow> string \<Rightarrow> verr list" where
  "check passed field msg = (if passed then [] else [(field, msg)])"

section \<open>Payments\<close>

record payment_body =
  pb_student_id :: "int option"
  pb_amount :: "rat option"
  pb_payment_month :: "string option"
  pb_payment_date :: "string option"
  pb_payment_method :: "string option"
  pb_notes :: "string option"

definition validate_payment :: "(string \<Rightarrow> bool) \<Rightarrow> payment_body \<Rightarrow> verr list" where
  "validate_payment isISO8601 b =
     check (pb_student_id b \<noteq> None) ''student_id'' ''Valid student ID is required''
   @ check (check_float_min0 (pb_amount b)) ''amount'' ''Amount must be a positive number''
   @ check (matches_year_month (field_text (pb_payment_month b))) ''payment_month''
       ''Payment month must be in YYYY-MM format''
   @ check (check_iso isISO8601 (pb_payment_date b)) ''payment_date''
       ''Valid payment date is required''
   @ check (field_text (pb_payment_method b) \<in> set [''cash'', ''card'', ''transfer''])
       ''payment_method'' ''Invalid payment method''"

definition set_payment_status :: "string \<Rightarrow> string \<Rightarrow> int \<Rightarrow> student list \<Rightarrow> student list" where
  "set_payment_status v now sid rows =
     map (\<lambda>s. if s_id s = sid then s\<lparr>s_payment_status := Some v, s_updated_at := now\<rparr> else s)
       rows"

text \<open>POST /api/payments: validate, look the student up, insert, mark the student paid.\<close>

definition create_payment ::
  "(string \<Rightarrow> bool) \<Rightarrow> string \<Rightarrow> payment_body \<Rightarrow> store \<Rightarrow> payment response \<times> store" where
  "create_payment isISO8601 now b st =
     (let errs = validate_payment isISO8601 b in
      if errs \<noteq> [] then (bad_request errs, st)
      else
        let student_id = the (pb_student_id b);
            studentResult = filter (\<lambda>s. s_id s = student_id) (students st)
        in if studentResult = [] then (failure 404 ''Student not found'', st)
           else
             let group_id = s_group_id (hd studentResult);
                 row = \<lparr>p_id = next_payment_id st, p_student_id = student_id,
                        p_group_id = group_id, p_amount = the (pb_amount b),
                        p_payment_month = field_text (pb_payment_month b),
                        p_payment_date = field_text (pb_payment_date b),
                        p_payment_method = field_text (pb_payment_method b),
                        p_notes = js_or (pb_notes b) None, p_created_at = now\<rparr>;
                 st1 = st\<lparr>payments := payments st @ [row],
                          next_payment_id := next_payment_id st + 1\<rparr>;
                 st2 = st1\<lparr>students :=
                          set_payment_status ''paid'' now student_id (students st1)\<rparr>
             in (succeeded 201 (Some ''Payment recorded successfully'') (Some row), st2))"

text \<open>
  DELETE /api/payments/:id: delete, then count the student's remaining payments of the
  current month (the first seven characters of the clock) and mark the student unpaid
  when there is none.
\<close>

definition delete_payment :: "string \<Rightarrow> int \<Rightarrow> store \<Rightarrow> unit response \<times> store" where
  "delete_payment now pid st =
     (let result = filter (\<lambda>p. p_id p = pid) (payments st);
          st1 = st\<lparr>payments := filter (\<lambda>p. p_id p \<noteq> pid) (payments st)\<rparr>
      in if result = [] then (failure 404 ''Payment not found'', st1)
         else
           let currentMonth = take 7 now;
               studentId = p_student_id (hd result);
               remainingPayments =
                 length (filter (\<lambda>p. p_student_id p = studentId
                                      \<and> p_payment_month p = currentMonth) (payments st1));
               st2 = (if remainingPayments = 0
                      then st1\<lparr>students :=
                             set_payment_status ''unpaid'' now studentId (students st1)\<rparr>
                      else st1)
           in (succeeded 200 (Some ''Payment deleted successfully'') None, st2))"

section \<open>Statements that the store may refuse\<close>

text \<open>
  \<open>group_id\<close> reaches the store as the body holds it. POST /api/students checks it with
  \<open>isInt()\<close>, which accepts any run of digits, and PUT /api/students/:id does not check
  it at all. \<open>Int_value i\<close> is a field that denotes the integer \<open>i\<close>, of any size;
  \<open>Not_integer\<close> is any other value; \<open>Missing\<close> is a field that is absent or null.
\<close>

datatype int_field = Missing | Int_value int | Not_integer

definition int_param :: "int_field \<Rightarrow> int option" where
  "int_param f = (case f of Int_value i \<Rightarrow> Some i | Missing \<Rightarrow> None | Not_integer \<Rightarrow> None)"

text \<open>
  An integer column reads a parameter that is NULL or an integer of at most 64 bits,
  the widest integer type of the store; it refuses every other parameter.
\<close>

definition int_param_ok :: "int_field \<Rightarrow> bool" where
  "int_param_ok f =
     (case f of Missing \<Rightarrow> True
      | Int_value i \<Rightarrow> - (2 ^ 63) \<le> i \<and> i < 2 ^ 63
      | Not_integer \<Rightarrow> False)"

record student_body =
  sb_group_id :: int_field
  sb_full_name :: "string option"
  sb_phone_number :: "string option"
  sb_parent_phone :: "string option"
  sb_join_date :: "string option"
  sb_payment_status :: "string option"

record group_body =
  gb_name :: "string option"
  gb_teacher_name :: "string option"
  gb_monthly_fee :: "rat option"

text \<open>
  The handlers read \<open>title\<close>, \<open>amount\<close>, \<open>category\<close>, \<open>expense_date\<close> and \<open>notes\<close> from
  the body of an expense request. A body may hold other keys as well;
  \<open>eb_expense_month\<close> is such a key, which no handler reads.
\<close>

record expense_body =
  eb_title :: "string option"
  eb_amount :: "rat option"
  eb_category :: "string option"
  eb_expense_date :: "string option"
  eb_notes :: "string option"
  eb_expense_month :: "string option"

text \<open>
  The statements of the student, group and expense routes, each with what it binds: the
  looked-up id, the row to insert, or the id and the body of an update.
\<close>

datatype statement =
    Select_group int_field
  | Insert_student student
  | Update_student int student_body
  | Update_group int group_body
  | Insert_expense expense
  | Update_expense int expense_body

definition binds :: "statement \<Rightarrow> bool" where
  "binds q =
     (case q of
        Select_group f \<Rightarrow> int_param_ok f
      | Insert_student row \<Rightarrow> True
      | Update_student i b \<Rightarrow> int_param_ok (sb_group_id b)
      | Update_group i b \<Rightarrow> True
      | Insert_expense row \<Rightarrow> True
      | Update_expense i b \<Rightarrow> True)"

text \<open>
  The store refuses a statement whose integer parameter it cannot read. What else it
  refuses depends on the schema (a narrower id column, a foreign key, a check or length
  constraint, a date or number that the column type cannot read) and is the parameter
  \<open>refuses\<close> of the handlers. A refused statement changes no table.
\<close>

definition store_refuses :: "(statement \<Rightarrow> store \<Rightarrow> bool) \<Rightarrow> statement \<Rightarrow> store \<Rightarrow> bool" where
  "store_refuses refuses q st = (refuses q st \<or> \<not> binds q)"

section \<open>Students\<close>

definition validate_student_create ::
  "(string \<Rightarrow> bool) \<Rightarrow> (string \<Rightarrow> string) \<Rightarrow> student_body \<Rightarrow> verr list" where
  "validate_student_create isISO8601 trim b =
     check (case sb_group_id b of Int_value i \<Rightarrow> True | Missing \<Rightarrow> False | Not_integer \<Rightarrow> False)
       ''group_id'' ''Valid group ID is required''
   @ check (trim (field_text (sb_full_name b)) \<noteq> []) ''full_name'' ''Full name is required''
   @ check (check_iso isISO8601 (sb_join_date b)) ''join_date'' ''Valid join date is required''"

definition validate_student_update ::
  "(string \<Rightarrow> bool) \<Rightarrow> (string \<Rightarrow> string) \<Rightarrow> student_body \<Rightarrow> verr list" where
  "validate_student_update isISO8601 trim b =
     check (trim (field_text (sb_full_name b)) \<noteq> []) ''full_name'' ''Full name is required''
   @ check (check_iso isISO8601 (sb_join_date b)) ''join_date'' ''Valid join date is required''"

text \<open>
  POST /api/students: validate, verify that the group exists, insert. Each of the two
  statements may be refused, which the \<open>catch\<close> block answers with 500.
\<close>

definition create_student ::
  "(string \<Rightarrow> bool) \<Rightarrow> (string \<Rightarrow> string) \<Rightarrow> (statement \<Rightarrow> store \<Rightarrow> bool) \<Rightarrow> string
     \<Rightarrow> student_body \<Rightarrow> store \<Rightarrow> student response \<times> store" where
  "create_student isISO8601 trim refuses now b st =
     (let errs = validate_student_create isISO8601 trim b in
      if errs \<noteq> [] then (bad_request errs, st)
      else if store_refuses refuses (Select_group (sb_group_id b)) st
      then (failure 500 ''Server error'', st)
      else
        let group_id = int_param (sb_group_id b);
            groupCheck = filter (\<lambda>g. Some (g_id g) = group_id) (groups st)
        in if groupCheck = [] then (failure 404 ''Group not found'', st)
           else
             let row = \<lparr>s_id = next_student_id st, s_group_id = group_id,
                        s_full_name = trim (field_text (sb_full_name b)),
                        s_phone_number = js_or (sb_phone_number b) None,
                        s_parent_phone = js_or (sb_parent_phone b) None,
                        s_join_date = field_text (sb_join_date b),
                        s_payment_status = js_or (sb_payment_status b) (Some ''unpaid''),
                        s_created_at = now, s_updated_at = now\<rparr>
             in if store_refuses refuses (Insert_student row) st
                then (failure 500 ''Server error'', st)
                else (succeeded 201 (Some ''Student created successfully'') (Some row),
                      st\<lparr>students := students st @ [row],
                         next_student_id := next_student_id st + 1\<rparr>))"

text \<open>
  PUT /api/students/:id: one UPDATE that sets every column of the request; the row
  count of its RETURNING clause decides between 200 and 404.
\<close>

definition student_set :: "(string \<Rightarrow> string) \<Rightarrow> string \<Rightarrow> student_body \<Rightarrow> student \<Rightarrow> student" where
  "student_set trim now b s =
     s\<lparr>s_group_id := int_param (sb_group_id b),
       s_full_name := trim (field_text (sb_full_name b)),
       s_phone_number := js_or (sb_phone_number b) None,
       s_parent_phone := js_or (sb_parent_phone b) None,
       s_join_date := field_text (sb_join_date b),
       s_payment_status := js_or (sb_payment_status b) (Some ''unpaid''),
       s_updated_at := now\<rparr>"

definition update_student ::
  "(string \<Rightarrow> bool) \<Rightarrow> (string \<Rightarrow> string) \<Rightarrow> (statement \<Rightarrow> store \<Rightarrow> bool) \<Rightarrow> string
     \<Rightarrow> int \<Rightarrow> student_body \<Rightarrow> store \<Rightarrow> student response \<times> store" where
  "update_student isISO8601 trim refuses now i b st =
     (let errs = validate_student_update isISO8601 trim b in
      if errs \<noteq> [] then (bad_request errs, st)
      else if store_refuses refuses (Update_student i b) st
      then (failure 500 ''Server error'', st)
      else
        let result = map (student_set trim now b) (filter (\<lambda>s. s_id s = i) (students st));
            st1 = st\<lparr>students :=
                     map (\<lambda>s. if s_id s = i then student_set trim now b s else s)
                       (students st)\<rparr>
        in if result = [] then (failure 404 ''Student not found'', st1)
           else (succeeded 200 (Some ''Student updated successfully'') (Some (hd result)), st1))"

section \<open>Groups\<close>

definition validate_group :: "(string \<Rightarrow> string) \<Rightarrow> group_body \<Rightarrow> verr list" where
  "validate_group trim b =
     check (trim (field_text (gb_name b)) \<noteq> []) ''name'' ''Group name is required''
   @ check (check_float_min0 (gb_monthly_fee b)) ''monthly_fee''
       ''Monthly fee must be a positive number''"



section \<open>Expenses\<close>

definition validate_expense ::
  "(string \<Rightarrow> bool) \<Rightarrow> (string \<Rightarrow> string) \<Rightarrow> expense_body \<Rightarrow> verr list" where
  "validate_expense isISO8601 trim b =
     check (trim (field_text (eb_title b)) \<noteq> []) ''title'' ''Title is required''
   @ check (check_float_min0 (eb_amount b)) ''amount'' ''Amount must be a positive number''
   @ check (check_iso isISO8601 (eb_expense_date b)) ''expense_date''
       ''Valid expense date is required''"

text \<open>\<open>expense_date.slice(0, 7)\<close>.\<close>

definition slice_0_7 :: "string \<Rightarrow> string" where
  "slice_0_7 s = take 7 s"

text \<open>POST /api/expenses.\<close>

definition create_expense ::
  "(string \<Rightarrow> bool) \<Rightarrow> (string \<Rightarrow> string) \<Rightarrow> (statement \<Rightarrow> store \<Rightarrow> bool) \<Rightarrow> string
     \<Rightarrow> expense_body \<Rightarrow> store \<Rightarrow> expense response \<times> store" where
  "create_expense isISO8601 trim refuses now b st =
     (let errs = validate_expense isISO8601 trim b in
      if errs \<noteq> [] then (bad_request errs, st)
      else
        let expense_date = field_text (eb_expense_date b);
            expense_month = slice_0_7 expense_date;
            row = \<lparr>e_id = next_expense_id st, e_title = trim (field_text (eb_title b)),
                   e_amount = the (eb_amount b), e_category = js_or (eb_category b) None,
                   e_expense_date = expense_date, e_expense_month = expense_month,
                   e_notes = js_or (eb_notes b) None, e_created_at = now\<rparr>
        in if store_refuses refuses (Insert_expense row) st
           then (failure 500 ''Server error'', st)
           else (succeeded 201 (Some ''Expense created successfully'') (Some row),
                 st\<lparr>expenses := expenses st @ [row],
                    next_expense_id := next_expense_id st + 1\<rparr>))"

definition expense_set :: "(string \<Rightarrow> string) \<Rightarrow> expense_body \<Rightarrow> expense \<Rightarrow> expense" where
  "expense_set trim b e =
     (let expense_date = field_text (eb_expense_date b);
          expense_month = slice_0_7 expense_date
      in e\<lparr>e_title := trim (field_text (eb_title b)),
           e_amount := the (eb_amount b),
           e_category := js_or (eb_category b) None,
           e_expense_date := expense_date,
           e_expense_month := expense_month,
           e_notes := js_or (eb_notes b) None\<rparr>)"

text \<open>PUT /api/expenses/:id.\<close>

definition update_expense ::
  "(string \<Rightarrow> bool) \<Rightarrow> (string \<Rightarrow> string) \<Rightarrow> (statement \<Rightarrow> store \<Rightarrow> bool) \<Rightarrow> int
     \<Rightarrow> expense_body \<Rightarrow> store \<Rightarrow> expense response \<times> store" where
  "update_expense isISO8601 trim refuses i b st =
     (let errs = validate_expense isISO8601 trim b in
      if errs \<noteq> [] then (bad_request errs, st)
      else if store_refuses refuses (Update_expense i b) st
      then (failure 500 ''Server error'', st)
      else
        let result = map (expense_set trim b) (filter (\<lambda>e. e_id e = i) (expenses st));
            st1 = st\<lparr>expenses :=
                     map (\<lambda>e. if e_id e = i then expense_set trim b e else e) (expenses st)\<rparr>
        in if result = [] then (failure 404 ''Expense not found'', st1)
           else (succeeded 200 (Some ''Expense updated successfully'') (Some (hd result)), st1))"

text \<open>DELETE /api/expenses/:id.\<close>

definition delete_expense :: "int \<Rightarrow> store \<Rightarrow> unit response \<times> store" where
  "delete_expense i st =
     (let result = filter (\<lambda>e. e_id e = i) (expenses st);
          st1 = st\<lparr>expenses := filter (\<lambda>e. e_id e \<noteq> i) (expenses st)\<rparr>
      in if result = [] then (failure 404 ''Expense not found'', st1)
         else (succeeded 200 (Some ''Expense deleted successfully'') None, st1))"

section \<open>Login\<close>

text \<open>
  The sources hold two versions of POST /api/auth/login. Both look the admin up by
  user name and compare the password with the stored hash. The password is checked
  with \<open>notEmpty()\<close> only, which reads the text of the value and writes nothing back:
  \<open>Password s\<close> is a password that is a string and \<open>Not_a_string s\<close> is any other value
  (a number, a boolean, an object) whose text is \<open>s\<close>.
\<close>

datatype password_field = No_password | Password string | Not_a_string string

definition password_text :: "password_field \<Rightarrow> string" where
  "password_text p =
     (case p of No_password \<Rightarrow> [] | Password s \<Rightarrow> s | Not_a_string s \<Rightarrow> s)"

record login_body =
  lb_username :: "string option"
  lb_password :: password_field

record session_user =
  u_id :: int
  u_username :: string
  u_email :: string

record login_ok =
  lo_token :: string
  lo_user :: session_user

text \<open>
  \<open>bcrypt.compare\<close> and the token issuer (\<open>generateToken\<close>, \<open>jwt.sign\<close>) are library
  code. The comparison of a string with a hash is the parameter \<open>compare\<close>; called with
  a password that is not a string, \<open>bcrypt.compare\<close> rejects its promise, so the
  \<open>await\<close> throws inside the \<open>try\<close> (\<open>None\<close> here).
\<close>

definition bcrypt_compare ::
  "(string \<Rightarrow> string \<Rightarrow> bool) \<Rightarrow> password_field \<Rightarrow> string \<Rightarrow> bool option" where
  "bcrypt_compare compare p hash =
     (case p of Password s \<Rightarrow> Some (compare s hash)
      | No_password \<Rightarrow> None | Not_a_string s \<Rightarrow> None)"

definition validate_login :: "(string \<Rightarrow> string) \<Rightarrow> login_body \<Rightarrow> verr list" where
  "validate_login trim b =
     check (trim (field_text (lb_username b)) \<noteq> []) ''username'' ''Username is required''
   @ check (password_text (lb_password b) \<noteq> []) ''password'' ''Password is required''"

text \<open>The version that reads the store through \<open>query\<close>; its user name is trimmed.\<close>

definition login ::
  "(string \<Rightarrow> string) \<Rightarrow> (string \<Rightarrow> string \<Rightarrow> bool) \<Rightarrow> (admin \<Rightarrow> string) \<Rightarrow> login_body \<Rightarrow> store
     \<Rightarrow> login_ok response" where
  "login trim compare generateToken b st =
     (let errs = validate_login trim b in
      if errs \<noteq> [] then bad_request errs
      else
        let username = trim (field_text (lb_username b));
            password = lb_password b;
            result = filter (\<lambda>a. a_username a = username) (admins st)
        in if result = [] then failure 401 ''Invalid credentials''
           else
             let admin = hd result in
             (case bcrypt_compare compare password (a_password admin) of
                None \<Rightarrow> failure 500 ''Server error''
              | Some isMatch \<Rightarrow>
                  if \<not> isMatch then failure 401 ''Invalid credentials''
                  else succeeded 200 (Some ''Login successful'')
                         (Some \<lparr>lo_token = generateToken admin,
                                lo_user = \<lparr>u_id = a_id admin, u_username = a_username admin,
                                            u_email = a_email admin\<rparr>\<rparr>)))"

definition validate_login_pool :: "login_body \<Rightarrow> verr list" where
  "validate_login_pool b =
     check (field_text (lb_username b) \<noteq> []) ''username'' ''Username required''
   @ check (password_text (lb_password b) \<noteq> []) ''password'' ''Password required''"

text \<open>The version of routes/auth.js, which reads the store through \<open>pool.query\<close>.\<close>

definition login_pool ::
  "(string \<Rightarrow> string \<Rightarrow> bool) \<Rightarrow> (int \<Rightarrow> string \<Rightarrow> string) \<Rightarrow> login_body \<Rightarrow> store
     \<Rightarrow> login_ok response" where
  "login_pool compare jwt_sign b st =
     (let errs = validate_login_pool b in
      if errs \<noteq> [] then bad_request errs
      else
        let username = field_text (lb_username b);
            password = lb_password b;
            result = filter (\<lambda>a. a_username a = username) (admins st)
        in if result = [] then failure 401 ''Invalid credentials''
           else
             let admin = hd result in
             (case bcrypt_compare compare password (a_password admin) of
                None \<Rightarrow> failure 500 ''Server error''
              | Some isMatch \<Rightarrow>
                  if \<not> isMatch then failure 401 ''Invalid credentials''
                  else succeeded 200 None
                         (Some \<lparr>lo_token = jwt_sign (a_id admin) (a_username admin),
                                lo_user = \<lparr>u_id = a_id admin, u_username = a_username admin,
                                            u_email = a_email admin\<rparr>\<rparr>)))"

section \<open>Dashboard: the monthly chart\<close>

text \<open>\<open>String(i)\<close> for a natural number, and \<open>padStart\<close> with a one-character filler.\<close>

definition digit_char :: "nat \<Rightarrow> char" where
  "digit_char d = ''0123456789'' ! (d mod 10)"

fun string_of_nat :: "nat \<Rightarrow> string" where
  "string_of_nat n =
     (if n < 10 then [digit_char n] else string_of_nat (n div 10) @ [digit_char (n mod 10)])"

declare string_of_nat.simps [simp del]

definition padStart :: "nat \<Rightarrow> char \<Rightarrow> string \<Rightarrow> string" where
  "padStart n c s = replicate (n - length s) c @ s"

text \<open>
  \<open>s LIKE pattern\<close>: \<open>%\<close> stands for any run of characters, \<open>_\<close> for one character, and
  a backslash takes the next character literally. The store rejects a pattern that ends
  in a lone backslash; the pattern of the handler ends in \<open>%\<close>.
\<close>

fun sql_like :: "string \<Rightarrow> string \<Rightarrow> bool" where
  "sql_like s [] = (s = [])"
| "sql_like s (p # ps) =
     (if p = CHR ''%'' then
        sql_like s ps \<or> (case s of [] \<Rightarrow> False | c # cs \<Rightarrow> sql_like cs (p # ps))
      else if p = CHR ''_'' then
        (case s of [] \<Rightarrow> False | c # cs \<Rightarrow> sql_like cs ps)
      else if p = CHR 0x5C then
        (case ps of [] \<Rightarrow> False
         | q # qs \<Rightarrow> (case s of [] \<Rightarrow> False | c # cs \<Rightarrow> c = q \<and> sql_like cs qs))
      else
        (case s of [] \<Rightarrow> False | c # cs \<Rightarrow> c = p \<and> sql_like cs ps))"

text \<open>
  \<open>SELECT m AS month, SUM(amount) AS total FROM t WHERE m LIKE pattern GROUP BY m
  ORDER BY m\<close> over the rows \<open>(m, amount)\<close> of a table.
\<close>

definition monthly_totals :: "string \<Rightarrow> (string \<times> rat) list \<Rightarrow> (string \<times> rat) list" where
  "monthly_totals pattern rows =
     (let selected = filter (\<lambda>r. sql_like (fst r) pattern) rows
      in map (\<lambda>m. (m, sum_list (map snd (filter (\<lambda>r. fst r = m) selected))))
           (sort (remdups (map fst selected))))"

text \<open>
  The store returns a total as decimal text and \<open>parseFloat\<close> reads it; amounts are
  rationals here, and the rounding of a total to a double is left out.
\<close>

definition parseFloat :: "rat \<Rightarrow> rat" where
  "parseFloat x = x"

record chart_entry =
  c_month :: string
  c_income :: rat
  c_expenses :: rat
  c_profit :: rat

definition chart_month ::
  "string \<Rightarrow> (string \<times> rat) list \<Rightarrow> (string \<times> rat) list \<Rightarrow> nat \<Rightarrow> chart_entry" where
  "chart_month currentYear incomeRows expensesRows i =
     (let month = currentYear @ ''-'' @ padStart 2 (CHR ''0'') (string_of_nat i);
          incomeData = find (\<lambda>r. fst r = month) incomeRows;
          expenseData = find (\<lambda>r. fst r = month) expensesRows
      in \<lparr>c_month = month,
          c_income = (case incomeData of Some r \<Rightarrow> parseFloat (snd r) | None \<Rightarrow> 0),
          c_expenses = (case expenseData of Some r \<Rightarrow> parseFloat (snd r) | None \<Rightarrow> 0),
          c_profit = (case incomeData of Some r \<Rightarrow> parseFloat (snd r) | None \<Rightarrow> 0)
                   - (case expenseData of Some r \<Rightarrow> parseFloat (snd r) | None \<Rightarrow> 0)\<rparr>)"

text \<open>\<open>for (let i = 1; i <= 12; i++) months.push(...)\<close>.\<close>

function months_loop ::
  "string \<Rightarrow> (string \<times> rat) list \<Rightarrow> (string \<times> rat) list \<Rightarrow> nat \<Rightarrow> chart_entry list
     \<Rightarrow> chart_entry list" where
  "months_loop currentYear incomeRows expensesRows i months =
     (if i \<le> 12
      then months_loop currentYear incomeRows expensesRows (i + 1)
             (months @ [chart_month currentYear incomeRows expensesRows i])
      else months)"
  by pat_completeness auto
termination
  by (relation "measure (\<lambda>(y, inc, ex, i, ms). 13 - i)") auto

declare months_loop.simps [simp del]

text \<open>
  GET /api/dashboard/monthly-chart. \<open>year\<close> is the query parameter and \<open>fullYear\<close> is
  \<open>new Date().getFullYear()\<close>, taken when the parameter is absent or empty
  (\<open>year || new Date().getFullYear()\<close>).
\<close>

definition current_year :: "nat \<Rightarrow> string option \<Rightarrow> string" where
  "current_year fullYear year =
     (case year of None \<Rightarrow> string_of_nat fullYear
      | Some y \<Rightarrow> if y = [] then string_of_nat fullYear else y)"

definition monthly_chart :: "nat \<Rightarrow> string option \<Rightarrow> store \<Rightarrow> chart_entry list response" where
  "monthly_chart fullYear year st =
     (let currentYear = current_year fullYear year;
          incomeResult = monthly_totals (currentYear @ ''%'')
                           (map (\<lambda>p. (p_payment_month p, p_amount p)) (payments st));
          expensesResult = monthly_totals (currentYear @ ''%'')
                             (map (\<lambda>e. (e_expense_month e, e_amount e)) (expenses st))
      in succeeded 200 None (Some (months_loop currentYear incomeResult expensesResult 1 [])))"

section \<open>Dashboard: the top groups\<close>

text \<open>
  GET /api/dashboard/top-groups sends one statement, whose select list computes
  \<^verbatim>\<open>ROUND(CASE WHEN c > 0 THEN (p::float / c::float) * 100 ELSE 0 END, 2)\<close>
  with \<open>c = COUNT(DISTINCT s.id)\<close> and \<open>p\<close> the count of the paid students. The route
  speaks to PostgreSQL (numbered \<open>$n\<close> parameters, \<open>::\<close> casts, RETURNING), which types a
  statement before it reads any row. The types of the expression and PostgreSQL's rules
  for them are modelled here: the implicit casts between the numeric types, the common
  type of the branches of a CASE and of the operands of an arithmetic operator, and the
  two-argument \<open>round\<close>, which PostgreSQL defines for \<open>(numeric, integer)\<close> only.
\<close>

datatype sql_type = Integer | Bigint | Double_precision | Numeric

definition implicit_cast :: "sql_type \<Rightarrow> sql_type \<Rightarrow> bool" where
  "implicit_cast a b =
     (a = b \<or> (a, b) \<in> set [(Integer, Bigint), (Integer, Double_precision),
                             (Integer, Numeric), (Bigint, Double_precision),
                             (Bigint, Numeric), (Numeric, Double_precision)])"

definition common_type :: "sql_type \<Rightarrow> sql_type \<Rightarrow> sql_type option" where
  "common_type a b =
     (if implicit_cast a b then Some b else if implicit_cast b a then Some a else None)"

datatype sql_expr =
    Count_distinct
  | Literal int
  | Cast sql_expr sql_type
  | Divide sql_expr sql_expr
  | Times sql_expr sql_expr
  | Case_else sql_expr sql_expr
  | Round sql_expr sql_expr

definition binary :: "sql_type option \<Rightarrow> sql_type option \<Rightarrow> sql_type option" where
  "binary x y =
     (case x of None \<Rightarrow> None
      | Some a \<Rightarrow> (case y of None \<Rightarrow> None | Some b \<Rightarrow> common_type a b))"

definition round_2 :: "sql_type option \<Rightarrow> sql_type option \<Rightarrow> sql_type option" where
  "round_2 x y =
     (case x of None \<Rightarrow> None
      | Some a \<Rightarrow>
          (case y of None \<Rightarrow> None
           | Some b \<Rightarrow>
               if implicit_cast a Numeric \<and> implicit_cast b Integer then Some Numeric
               else None))"

text \<open>The type of an expression; \<open>None\<close> when the store rejects it.\<close>

primrec type_of :: "sql_expr \<Rightarrow> sql_type option" where
  "type_of Count_distinct = Some Bigint"
| "type_of (Literal n) = Some Integer"
| "type_of (Cast e t) = (case type_of e of None \<Rightarrow> None | Some a \<Rightarrow> Some t)"
| "type_of (Divide a b) = binary (type_of a) (type_of b)"
| "type_of (Times a b) = binary (type_of a) (type_of b)"
| "type_of (Case_else a b) = binary (type_of a) (type_of b)"
| "type_of (Round v s) = round_2 (type_of v) (type_of s)"

definition rate_case :: sql_expr where
  "rate_case =
     Case_else
       (Times (Divide (Cast Count_distinct Double_precision)
                      (Cast Count_distinct Double_precision))
              (Literal 100))
       (Literal 0)"

definition payment_rate :: sql_expr where
  "payment_rate = Round rate_case (Literal 2)"

text \<open>
  The handler passes the rows of the statement through. \<open>rows\<close> stands for what the
  store computes for a statement that it accepts; a statement that it rejects makes
  \<open>query\<close> throw, and the \<open>catch\<close> block answers with status 500.
\<close>

definition query_top_groups :: "'r \<Rightarrow> 'r option" where
  "query_top_groups rows = (case type_of payment_rate of None \<Rightarrow> None | Some t \<Rightarrow> Some rows)"

definition top_groups :: "'r \<Rightarrow> 'r response" where
  "top_groups rows =
     (case query_top_groups rows of
        None \<Rightarrow> failure 500 ''Server error''
      | Some r \<Rightarrow> succeeded 200 None (Some r))"

section \<open>Example data\<close>

text \<open>
  A calendar-date check \<open>YYYY-MM-DD\<close>, which instantiates the \<open>isISO8601\<close> parameter in
  the examples.
\<close>

definition date_form :: "string \<Rightarrow> bool" where
  "date_form s =
     (case s of
        [a, b, c, d, h, m, n, k, x, y] \<Rightarrow>
          is_digit a \<and> is_digit b \<and> is_digit c \<and> is_digit d \<and> h = CHR ''-''
          \<and> is_digit m \<and> is_digit n \<and> k = CHR ''-'' \<and> is_digit x \<and> is_digit y
      | _ \<Rightarrow> False)"

definition group_G :: group where
  "group_G = \<lparr>g_id = 7, g_name = ''Math A'', g_teacher_name = Some ''Karimov'',
     g_monthly_fee = 300, g_created_at = ''2024-01-01T08:00:00.000Z'',
     g_updated_at = ''2024-01-01T08:00:00.000Z''\<rparr>"

definition student_S :: student where
  "student_S = \<lparr>s_id = 1, s_group_id = Some 7, s_full_name = ''Ali Valiyev'',
     s_phone_number = Some ''901234567'', s_parent_phone = None, s_join_date = ''2024-01-10'',
     s_payment_status = Some ''unpaid'', s_created_at = ''2024-01-10T08:00:00.000Z'',
     s_updated_at = ''2024-01-10T08:00:00.000Z''\<rparr>"

definition store_A :: store where
  "store_A = \<lparr>groups = [group_G], students = [student_S], payments = [], expenses = [],
     admins = [], next_student_id = 2, next_payment_id = 1, next_expense_id = 1\<rparr>"

definition body_past_month :: payment_body where
  "body_past_month = \<lparr>pb_student_id = Some 1, pb_amount = Some 300,
     pb_payment_month = Some ''2023-11'', pb_payment_date = Some ''2024-03-15'',
     pb_payment_method = Some ''cash'', pb_notes = None\<rparr>"

definition clock_march :: string where
  "clock_march = ''2024-03-15T09:30:00.000Z''"

definition payment_of :: "int \<Rightarrow> string \<Rightarrow> payment" where
  "payment_of i month = \<lparr>p_id = i, p_student_id = 1, p_group_id = Some 7, p_amount = 300,
     p_payment_month = month, p_payment_date = ''2024-03-02'', p_payment_method = ''cash'',
     p_notes = None, p_created_at = ''2024-03-02T10:00:00.000Z''\<rparr>"

definition store_B :: store where
  "store_B = store_A\<lparr>students := [student_S\<lparr>s_payment_status := Some ''paid''\<rparr>],
     payments := [payment_of 10 ''2024-03''], next_payment_id := 11\<rparr>"

definition store_C :: store where
  "store_C = store_A\<lparr>students := [student_S\<lparr>s_payment_status := Some ''paid''\<rparr>],
     payments := [payment_of 10 ''2024-03'', payment_of 11 ''2024-03''],
     next_payment_id := 12\<rparr>"

text \<open>
  An instance of the \<open>trim\<close> parameter: it strips the white space of JavaScript's \<open>\s\<close>
  at both ends of a string in UTF-8 (tab to carriage return, space, U+00A0, U+1680,
  U+2000 to U+200A, U+2028, U+2029, U+202F, U+205F, U+3000 and U+FEFF).
\<close>

definition white_space :: "string list" where
  "white_space =
     [[CHR 0x09], [CHR 0x0A], [CHR 0x0B], [CHR 0x0C], [CHR 0x0D], [CHR 0x20],
      [CHR 0xC2, CHR 0xA0], [CHR 0xE1, CHR 0x9A, CHR 0x80],
      [CHR 0xE2, CHR 0x80, CHR 0x80], [CHR 0xE2, CHR 0x80, CHR 0x81],
      [CHR 0xE2, CHR 0x80, CHR 0x82], [CHR 0xE2, CHR 0x80, CHR 0x83],
      [CHR 0xE2, CHR 0x80, CHR 0x84], [CHR 0xE2, CHR 0x80, CHR 0x85],
      [CHR 0xE2, CHR 0x80, CHR 0x86], [CHR 0xE2, CHR 0x80, CHR 0x87],
      [CHR 0xE2, CHR 0x80, CHR 0x88], [CHR 0xE2, CHR 0x80, CHR 0x89],
      [CHR 0xE2, CHR 0x80, CHR 0x8A], [CHR 0xE2, CHR 0x80, CHR 0xA8],
      [CHR 0xE2, CHR 0x80, CHR 0xA9], [CHR 0xE2, CHR 0x80, CHR 0xAF],
      [CHR 0xE2, CHR 0x81, CHR 0x9F], [CHR 0xE3, CHR 0x80, CHR 0x80],
      [CHR 0xEF, CHR 0xBB, CHR 0xBF]]"

fun strip_spaces :: "string list \<Rightarrow> string \<Rightarrow> string" where
  "strip_spaces ws [] = []"
| "strip_spaces ws (c # s) =
     (case find (\<lambda>w. w \<noteq> [] \<and> take (length w) (c # s) = w) ws of
        None \<Rightarrow> c # s
      | Some w \<Rightarrow> strip_spaces ws (drop (length w - 1) s))"

definition trim_utf8 :: "string \<Rightarrow> string" where
  "trim_utf8 s = rev (strip_spaces (map rev white_space) (rev (strip_spaces white_space s)))"

text \<open>
  An instance of the \<open>isISO8601\<close> parameter: the calendar dates \<open>YYYY-MM-DD\<close> and
  \<open>YYYYMMDD\<close>, two of the forms that the validator accepts.
\<close>

definition iso_calendar_date :: "string \<Rightarrow> bool" where
  "iso_calendar_date s = (date_form s \<or> (length s = 8 \<and> list_all is_digit s))"

text \<open>An instance of the \<open>refuses\<close> parameter: a store without further constraints.\<close>

definition refuses_nothing :: "statement \<Rightarrow> store \<Rightarrow> bool" where
  "refuses_nothing q st = False"

definition body_no_name :: student_body where
  "body_no_name = \<lparr>sb_group_id = Int_value 99, sb_full_name = Some [],
     sb_phone_number = None, sb_parent_phone = None, sb_join_date = Some ''2024-02-01'',
     sb_payment_status = None\<rparr>"

definition body_unknown_group :: student_body where
  "body_unknown_group = body_no_name\<lparr>sb_full_name := Some ''Vali Aliyev''\<rparr>"

definition body_huge_group :: student_body where
  "body_huge_group = body_unknown_group\<lparr>sb_group_id := Int_value 10000000000000000000\<rparr>"

definition body_paid :: student_body where
  "body_paid = \<lparr>sb_group_id = Int_value 7, sb_full_name = Some ''Vali Aliyev'',
     sb_phone_number = None, sb_parent_phone = None, sb_join_date = Some ''2024-02-01'',
     sb_payment_status = Some ''paid''\<rparr>"

definition body_rename :: student_body where
  "body_rename = \<lparr>sb_group_id = Missing, sb_full_name = Some ''Ali Valiyev'',
     sb_phone_number = None, sb_parent_phone = None, sb_join_date = Some ''2024-01-10'',
     sb_payment_status = None\<rparr>"

text \<open>A name that is a space followed by a no-break space (U+00A0).\<close>

definition body_blank_name :: student_body where
  "body_blank_name = body_rename\<lparr>sb_full_name := Some [CHR 0x20, CHR 0xC2, CHR 0xA0]\<rparr>"

definition body_rename_huge :: student_body where
  "body_rename_huge = body_rename\<lparr>sb_group_id := Int_value 10000000000000000000\<rparr>"

definition expense_X :: expense where
  "expense_X = \<lparr>e_id = 4, e_title = ''Rent'', e_amount = 450, e_category = Some ''office'',
     e_expense_date = ''2024-03-15'', e_expense_month = ''2024-03'',
     e_notes = Some ''March'', e_created_at = ''2024-03-15T12:00:00.000Z''\<rparr>"

definition store_E :: store where
  "store_E = store_A\<lparr>expenses := [expense_X], next_expense_id := 5\<rparr>"

definition body_expense :: expense_body where
  "body_expense = \<lparr>eb_title = Some ''Rent'', eb_amount = Some 500, eb_category = None,
     eb_expense_date = Some ''2024-04-01'', eb_notes = None,
     eb_expense_month = Some ''1999-01''\<rparr>"

definition body_basic_date :: expense_body where
  "body_basic_date = body_expense\<lparr>eb_expense_date := Some ''20240315''\<rparr>"

definition body_group :: group_body where
  "body_group = \<lparr>gb_name = Some ''Math B'', gb_teacher_name = None,
     gb_monthly_fee = Some 350\<rparr>"


definition body_expense_wide :: expense_body where
  "body_expense_wide = body_expense\<lparr>eb_amount := Some 1000000000\<rparr>"

definition body_group_wide :: group_body where
  "body_group_wide = body_group\<lparr>gb_monthly_fee := Some 1000000000\<rparr>"

text \<open>
  A stand-in for the hash comparison of \<open>bcrypt.compare\<close> in the examples: the stored
  hash of a password is the password behind a fixed prefix.
\<close>

definition compare_prefix :: "string \<Rightarrow> string \<Rightarrow> bool" where
  "compare_prefix password hash = (hash = ''$2a$'' @ password)"

definition token_of :: "admin \<Rightarrow> string" where
  "token_of a = ''token-'' @ a_username a"

definition sign_of :: "int \<Rightarrow> string \<Rightarrow> string" where
  "sign_of i name = ''token-'' @ name"

definition admin_root :: admin where
  "admin_root = \<lparr>a_id = 1, a_username = ''root'', a_password = ''$2a$secret'',
     a_email = ''root@example.org''\<rparr>"

definition store_L :: store where
  "store_L = store_A\<lparr>admins := [admin_root]\<rparr>"

definition attempt_ghost :: login_body where
  "attempt_ghost = \<lparr>lb_username = Some ''ghost'', lb_password = Password ''guess''\<rparr>"

definition attempt_wrong :: login_body where
  "attempt_wrong = \<lparr>lb_username = Some ''root'', lb_password = Password ''guess''\<rparr>"

definition attempt_ghost_number :: login_body where
  "attempt_ghost_number =
     \<lparr>lb_username = Some ''ghost'', lb_password = Not_a_string ''123''\<rparr>"

definition attempt_root_number :: login_body where
  "attempt_root_number =
     \<lparr>lb_username = Some ''root'', lb_password = Not_a_string ''123''\<rparr>"

definition store_M :: store where
  "store_M = store_B\<lparr>expenses := [expense_X], next_expense_id := 5\<rparr>"

section \<open>Properties of the payment routes\<close>

lemma set_payment_status_ids: "map s_id (set_payment_status v now sid rows) = map s_id rows"
  by (induction rows) (simp_all add: set_payment_status_def)

lemma filter_nonempty: "(\<exists>x \<in> set xs. P x) \<Longrightarrow> filter P xs \<noteq> []"
  by (simp add: filter_empty_conv)

lemma set_payment_status_sets:
  assumes "s \<in> set (set_payment_status v now sid rows)" and "s_id s = sid"
  shows "s_payment_status s = Some v"
proof -
  from assms(1) obtain x where x: "x \<in> set rows"
    and s: "s = (if s_id x = sid then x\<lparr>s_payment_status := Some v, s_updated_at := now\<rparr> else x)"
    unfolding set_payment_status_def by auto
  show ?thesis
  proof (cases "s_id x = sid")
    case True
    with s show ?thesis by simp
  next
    case False
    with s assms(2) show ?thesis by simp
  qed
qed

lemma set_payment_status_other:
  "s \<in> set rows \<Longrightarrow> s_id s \<noteq> sid \<Longrightarrow> s \<in> set (set_payment_status v now sid rows)"
  by (induction rows) (auto simp: set_payment_status_def)

lemma single_row:
  assumes "map k xs = [i]" and "\<forall>s \<in> set xs. k s = i \<longrightarrow> f s = v"
  shows "map f xs = [v]"
  using assms by (cases xs) auto

lemma find_hd_filter:
  "find P xs = Some d \<Longrightarrow> filter P xs \<noteq> [] \<and> hd (filter P xs) = d"
  by (induction xs) (simp_all split: if_splits)

lemma delete_payment_found:
  assumes "find (\<lambda>p. p_id p = pid) (payments st) = Some d"
  shows "delete_payment now pid st =
    (succeeded 200 (Some ''Payment deleted successfully'') None,
     (if filter (\<lambda>p. p_student_id p = p_student_id d \<and> p_payment_month p = take 7 now)
           (filter (\<lambda>p. p_id p \<noteq> pid) (payments st)) = []
      then st\<lparr>payments := filter (\<lambda>p. p_id p \<noteq> pid) (payments st),
              students := set_payment_status ''unpaid'' now (p_student_id d) (students st)\<rparr>
      else st\<lparr>payments := filter (\<lambda>p. p_id p \<noteq> pid) (payments st)\<rparr>))"
  using find_hd_filter [OF assms]
  by (simp add: delete_payment_def Let_def)

lemma delete_payment_absent:
  assumes "\<forall>p \<in> set (payments st). p_id p \<noteq> pid"
  shows "delete_payment now pid st = (failure 404 ''Payment not found'', st)"
proof -
  from assms have 1: "filter (\<lambda>p. p_id p = pid) (payments st) = []"
    by (simp add: filter_empty_conv)
  from assms have 2: "filter (\<lambda>p. p_id p \<noteq> pid) (payments st) = payments st"
    by (simp add: filter_id_conv)
  show ?thesis
    by (simp add: delete_payment_def Let_def 1 2)
qed

lemma create_payment_result:
  assumes valid: "validate_payment isISO8601 b = []"
    and sid: "pb_student_id b = Some sid"
    and ex: "\<exists>s \<in> set (students st). s_id s = sid"
  shows "create_payment isISO8601 now b st =
    (let row = \<lparr>p_id = next_payment_id st, p_student_id = sid,
                 p_group_id = s_group_id (hd (filter (\<lambda>s. s_id s = sid) (students st))),
                 p_amount = the (pb_amount b),
                 p_payment_month = field_text (pb_payment_month b),
                 p_payment_date = field_text (pb_payment_date b),
                 p_payment_method = field_text (pb_payment_method b),
                 p_notes = js_or (pb_notes b) None, p_created_at = now\<rparr>
     in (succeeded 201 (Some ''Payment recorded successfully'') (Some row),
         st\<lparr>payments := payments st @ [row], next_payment_id := next_payment_id st + 1,
            students := set_payment_status ''paid'' now sid (students st)\<rparr>))"
proof -
  from ex have ne: "filter (\<lambda>s. s_id s = sid) (students st) \<noteq> []"
    by (rule filter_nonempty)
  show ?thesis
    unfolding create_payment_def Let_def using valid sid ne by simp
qed

text \<open>
  C1. A payment-creation request that passes validation and names an existing student
  is answered with 201, appends one payment row for that student with the month of the
  request, and leaves every row of the student with \<open>payment_status = paid\<close>, whatever
  the month of the payment is; the other students are unchanged.
\<close>

theorem create_payment_marks_paid:
  assumes valid: "validate_payment isISO8601 b = []"
    and sid: "pb_student_id b = Some sid"
    and ex: "\<exists>s \<in> set (students st). s_id s = sid"
  shows "case create_payment isISO8601 now b st of (res, st') \<Rightarrow>
           status res = 201
         \<and> (\<exists>row. payload res = Some row \<and> payments st' = payments st @ [row]
              \<and> p_student_id row = sid
              \<and> p_payment_month row = field_text (pb_payment_month b))
         \<and> map s_id (students st') = map s_id (students st)
         \<and> (\<forall>s \<in> set (students st'). s_id s = sid \<longrightarrow> s_payment_status s = Some ''paid'')
         \<and> (\<forall>s \<in> set (students st). s_id s \<noteq> sid \<longrightarrow> s \<in> set (students st'))"
proof -
  have paid: "\<forall>s \<in> set (set_payment_status ''paid'' now sid (students st)).
          s_id s = sid \<longrightarrow> s_payment_status s = Some ''paid''"
    using set_payment_status_sets by blast
  have other: "\<forall>s \<in> set (students st). s_id s \<noteq> sid
          \<longrightarrow> s \<in> set (set_payment_status ''paid'' now sid (students st))"
    using set_payment_status_other by blast
  from paid other show ?thesis
    by (simp add: create_payment_result [OF valid sid ex] Let_def succeeded_def
        set_payment_status_ids)
qed

theorem create_payment_marks_paid_witness:
  "validate_payment date_form body_past_month = []
   \<and> pb_student_id body_past_month = Some 1
   \<and> (\<exists>s \<in> set (students store_A). s_id s = 1)
   \<and> take 7 clock_march \<noteq> field_text (pb_payment_month body_past_month)
   \<and> map s_payment_status (students store_A) = [Some ''unpaid'']
   \<and> map s_payment_status
         (students (snd (create_payment date_form clock_march body_past_month store_A)))
       = [Some ''paid'']"
proof -
  have v: "validate_payment date_form body_past_month = []"
    by (simp add: validate_payment_def body_past_month_def check_def check_float_min0_def
        matches_year_month_def field_text_def is_digit_def check_iso_def date_form_def)
  have s: "pb_student_id body_past_month = Some 1"
    by (simp add: body_past_month_def)
  have e: "\<exists>s \<in> set (students store_A). s_id s = 1"
    by (simp add: store_A_def student_S_def)
  have m: "take 7 clock_march \<noteq> field_text (pb_payment_month body_past_month)"
    by (simp add: body_past_month_def field_text_def clock_march_def)
  have u: "map s_payment_status (students store_A) = [Some ''unpaid'']"
    "map s_id (students store_A) = [1]"
    by (simp_all add: store_A_def student_S_def)
  from create_payment_marks_paid [OF v s e, of clock_march]
  have "map s_id (students (snd (create_payment date_form clock_march body_past_month
                                    store_A))) = [1]"
    and "\<forall>s \<in> set (students (snd (create_payment date_form clock_march body_past_month
                                     store_A))).
          s_id s = 1 \<longrightarrow> s_payment_status s = Some ''paid''"
    by (simp_all add: case_prod_beta u)
  then have "map s_payment_status
         (students (snd (create_payment date_form clock_march body_past_month store_A)))
       = [Some ''paid'']"
    by (rule single_row)
  with v s e m u show ?thesis by blast
qed

text \<open>
  C2. Deleting an existing payment removes its row and then counts the remaining
  payments of the deleted payment's student whose month is the current month (the
  first seven characters of the clock at deletion time). With none left, every row of
  that student gets \<open>payment_status = unpaid\<close>; with one or more left, the students
  table is unchanged. Students with another id are unchanged in both cases.
\<close>

theorem delete_payment_reconciles:
  assumes "find (\<lambda>p. p_id p = pid) (payments st) = Some d"
  shows "case delete_payment now pid st of (res, st') \<Rightarrow>
           status res = 200
         \<and> payments st' = filter (\<lambda>p. p_id p \<noteq> pid) (payments st)
         \<and> map s_id (students st') = map s_id (students st)
         \<and> (filter (\<lambda>p. p_student_id p = p_student_id d \<and> p_payment_month p = take 7 now)
               (payments st') = []
              \<longrightarrow> (\<forall>s \<in> set (students st').
                     s_id s = p_student_id d \<longrightarrow> s_payment_status s = Some ''unpaid''))
         \<and> (filter (\<lambda>p. p_student_id p = p_student_id d \<and> p_payment_month p = take 7 now)
               (payments st') \<noteq> []
              \<longrightarrow> students st' = students st)
         \<and> (\<forall>s \<in> set (students st). s_id s \<noteq> p_student_id d \<longrightarrow> s \<in> set (students st'))"
proof (cases "filter (\<lambda>p. p_student_id p = p_student_id d \<and> p_payment_month p = take 7 now)
           (filter (\<lambda>p. p_id p \<noteq> pid) (payments st)) = []")
  case True
  have paid: "\<forall>s \<in> set (set_payment_status ''unpaid'' now (p_student_id d) (students st)).
          s_id s = p_student_id d \<longrightarrow> s_payment_status s = Some ''unpaid''"
    using set_payment_status_sets by blast
  have other: "\<forall>s \<in> set (students st). s_id s \<noteq> p_student_id d
          \<longrightarrow> s \<in> set (set_payment_status ''unpaid'' now (p_student_id d) (students st))"
    using set_payment_status_other by blast
  from True paid other show ?thesis
    by (simp add: delete_payment_found [OF assms] succeeded_def set_payment_status_ids)
next
  case False
  then show ?thesis
    by (simp add: delete_payment_found [OF assms] succeeded_def)
qed

theorem delete_payment_reconciles_witness:
  "find (\<lambda>p. p_id p = 10) (payments store_B) = Some (payment_of 10 ''2024-03'')
   \<and> map s_payment_status (students store_B) = [Some ''paid'']
   \<and> map s_payment_status (students (snd (delete_payment clock_march 10 store_B)))
       = [Some ''unpaid'']
   \<and> find (\<lambda>p. p_id p = 10) (payments store_C) = Some (payment_of 10 ''2024-03'')
   \<and> map s_payment_status (students store_C) = [Some ''paid'']
   \<and> students (snd (delete_payment clock_march 10 store_C)) = students store_C"
proof -
  have fB: "find (\<lambda>p. p_id p = 10) (payments store_B) = Some (payment_of 10 ''2024-03'')"
    by (simp add: store_B_def store_A_def payment_of_def)
  have fC: "find (\<lambda>p. p_id p = 10) (payments store_C) = Some (payment_of 10 ''2024-03'')"
    by (simp add: store_C_def store_A_def payment_of_def)
  have sB: "map s_payment_status (students store_B) = [Some ''paid'']"
    "map s_id (students store_B) = [1]"
    by (simp_all add: store_B_def store_A_def student_S_def)
  have sC: "map s_payment_status (students store_C) = [Some ''paid'']"
    by (simp add: store_C_def store_A_def student_S_def)
  have pB: "filter (\<lambda>p. p_id p \<noteq> 10) (payments store_B) = []"
    by (simp add: store_B_def store_A_def payment_of_def)
  have pC: "filter (\<lambda>p. p_id p \<noteq> 10) (payments store_C) = [payment_of 11 ''2024-03'']"
    by (simp add: store_C_def store_A_def payment_of_def)
  have m: "p_student_id (payment_of 10 ''2024-03'') = 1"
    "p_student_id (payment_of 11 ''2024-03'') = 1"
    "p_payment_month (payment_of 11 ''2024-03'') = take 7 clock_march"
    by (simp_all add: payment_of_def clock_march_def)
  from delete_payment_reconciles [OF fB, of clock_march]
  have "map s_id (students (snd (delete_payment clock_march 10 store_B))) = [1]"
    and "\<forall>s \<in> set (students (snd (delete_payment clock_march 10 store_B))).
         s_id s = 1 \<longrightarrow> s_payment_status s = Some ''unpaid''"
    by (simp_all add: case_prod_beta pB sB m)
  then have B: "map s_payment_status (students (snd (delete_payment clock_march 10 store_B)))
       = [Some ''unpaid'']"
    by (rule single_row)
  from delete_payment_reconciles [OF fC, of clock_march]
  have C: "students (snd (delete_payment clock_march 10 store_C)) = students store_C"
    by (simp add: case_prod_beta pC m)
  from fB fC sB sC B C show ?thesis by blast
qed

text \<open>
  C3. For a payment id that is in the store, the first deletion answers 200 with
  success and the second answers 404 "Payment not found" and returns the store as it
  found it.
\<close>

theorem delete_payment_twice:
  assumes "\<exists>p \<in> set (payments st). p_id p = pid"
  shows "case delete_payment now pid st of (r1, st1) \<Rightarrow>
           (case delete_payment now' pid st1 of (r2, st2) \<Rightarrow>
              status r1 = 200 \<and> success r1
            \<and> status r2 = 404 \<and> \<not> success r2 \<and> message r2 = Some ''Payment not found''
            \<and> st2 = st1)"
proof -
  from assms obtain d where d: "find (\<lambda>p. p_id p = pid) (payments st) = Some d"
    by (cases "find (\<lambda>p. p_id p = pid) (payments st)") (auto simp: find_None_iff)
  obtain r1 st1 where r1: "delete_payment now pid st = (r1, st1)"
    by (cases "delete_payment now pid st")
  from r1 have ok: "status r1 = 200" "success r1"
    by (auto simp: delete_payment_found [OF d] succeeded_def)
  from r1 have "payments st1 = filter (\<lambda>p. p_id p \<noteq> pid) (payments st)"
    by (auto simp: delete_payment_found [OF d] split: if_splits)
  then have "\<forall>p \<in> set (payments st1). p_id p \<noteq> pid"
    by simp
  then have "delete_payment now' pid st1 = (failure 404 ''Payment not found'', st1)"
    by (rule delete_payment_absent)
  with r1 ok show ?thesis
    by (simp add: failure_def)
qed


theorem delete_payment_twice_witness:
  "(\<exists>p \<in> set (payments store_C). p_id p = 10)
   \<and> status (fst (delete_payment clock_march 10 store_C)) = 200
   \<and> status (fst (delete_payment clock_march 10
                    (snd (delete_payment clock_march 10 store_C)))) = 404
   \<and> snd (delete_payment clock_march 10 (snd (delete_payment clock_march 10 store_C)))
       = snd (delete_payment clock_march 10 store_C)"
proof -
  have e: "\<exists>p \<in> set (payments store_C). p_id p = 10"
    by (simp add: store_C_def store_A_def payment_of_def)
  from delete_payment_twice [OF e, of clock_march clock_march] e show ?thesis
    by (simp add: case_prod_beta)
qed

section \<open>Properties of the student routes\<close>

lemma trim_utf8_examples:
  "trim_utf8 ''Vali Aliyev'' = ''Vali Aliyev''"
  "trim_utf8 ''Ali Valiyev'' = ''Ali Valiyev''"
  "trim_utf8 [] = []"
  "trim_utf8 [CHR 0x20, CHR 0xC2, CHR 0xA0] = []"
  "trim_utf8 ''Rent'' = ''Rent''"
  "trim_utf8 ''Math B'' = ''Math B''"
  "trim_utf8 ''ghost'' = ''ghost''"
  "trim_utf8 ''root'' = ''root''"
  by code_simp+

lemma validate_student_create_passes:
  assumes "validate_student_create isISO8601 trim b = []"
  shows "\<exists>i. sb_group_id b = Int_value i"
  using assms
  by (cases "sb_group_id b") (simp_all add: validate_student_create_def check_def)

lemma create_student_invalid:
  "validate_student_create isISO8601 trim b \<noteq> [] \<Longrightarrow>
   create_student isISO8601 trim refuses now b st
     = (bad_request (validate_student_create isISO8601 trim b), st)"
  by (simp add: create_student_def Let_def)

lemma create_student_refused:
  assumes "validate_student_create isISO8601 trim b = []"
    and "store_refuses refuses (Select_group (sb_group_id b)) st"
  shows "create_student isISO8601 trim refuses now b st = (failure 500 ''Server error'', st)"
  using assms by (simp add: create_student_def Let_def)

lemma create_student_no_group:
  assumes v: "validate_student_create isISO8601 trim b = []"
    and r: "\<not> store_refuses refuses (Select_group (sb_group_id b)) st"
    and n: "\<forall>g \<in> set (groups st). Int_value (g_id g) \<noteq> sb_group_id b"
  shows "create_student isISO8601 trim refuses now b st = (failure 404 ''Group not found'', st)"
proof -
  from validate_student_create_passes [OF v] obtain i where i: "sb_group_id b = Int_value i"
    by blast
  with n have "filter (\<lambda>g. Some (g_id g) = int_param (sb_group_id b)) (groups st) = []"
    by (simp add: filter_empty_conv int_param_def)
  with v r show ?thesis
    by (simp add: create_student_def Let_def)
qed

lemma create_student_ok:
  assumes v: "validate_student_create isISO8601 trim b = []"
    and r: "\<not> store_refuses refuses (Select_group (sb_group_id b)) st"
    and g: "\<exists>g \<in> set (groups st). Int_value (g_id g) = sb_group_id b"
  shows "create_student isISO8601 trim refuses now b st =
     (let row = \<lparr>s_id = next_student_id st, s_group_id = int_param (sb_group_id b),
                  s_full_name = trim (field_text (sb_full_name b)),
                  s_phone_number = js_or (sb_phone_number b) None,
                  s_parent_phone = js_or (sb_parent_phone b) None,
                  s_join_date = field_text (sb_join_date b),
                  s_payment_status = js_or (sb_payment_status b) (Some ''unpaid''),
                  s_created_at = now, s_updated_at = now\<rparr>
      in if store_refuses refuses (Insert_student row) st
         then (failure 500 ''Server error'', st)
         else (succeeded 201 (Some ''Student created successfully'') (Some row),
               st\<lparr>students := students st @ [row],
                  next_student_id := next_student_id st + 1\<rparr>))"
proof -
  from g obtain x where x: "x \<in> set (groups st)" "Int_value (g_id x) = sb_group_id b"
    by blast
  then have "Some (g_id x) = int_param (sb_group_id b)"
    by (simp add: int_param_def flip: x(2))
  with x(1) have "filter (\<lambda>g. Some (g_id g) = int_param (sb_group_id b)) (groups st) \<noteq> []"
    by (auto simp: filter_empty_conv)
  with v r show ?thesis
    by (simp add: create_student_def Let_def)
qed

text \<open>
  C4 (as amended). A student-creation request whose \<open>group_id\<close> names no existing group
  never changes the store. It is answered with 400 and the validation errors when it
  fails validation, since the fields are checked before the group is looked up; with
  500 when it passes validation and the store refuses the lookup, as it does for a
  \<open>group_id\<close> beyond the range of an integer column; and with 404 "Group not found"
  otherwise.
\<close>

theorem create_student_unknown_group:
  assumes "\<forall>g \<in> set (groups st). Int_value (g_id g) \<noteq> sb_group_id b"
  shows "case create_student isISO8601 trim refuses now b st of (res, st') \<Rightarrow>
           st' = st
         \<and> (validate_student_create isISO8601 trim b \<noteq> []
              \<longrightarrow> res = bad_request (validate_student_create isISO8601 trim b)
                \<and> status res = 400)
         \<and> (validate_student_create isISO8601 trim b = []
              \<and> store_refuses refuses (Select_group (sb_group_id b)) st
              \<longrightarrow> res = failure 500 ''Server error'' \<and> status res = 500)
         \<and> (validate_student_create isISO8601 trim b = []
              \<and> \<not> store_refuses refuses (Select_group (sb_group_id b)) st
              \<longrightarrow> res = failure 404 ''Group not found'' \<and> status res = 404
                \<and> \<not> success res)"
proof (cases "validate_student_create isISO8601 trim b = []")
  case False
  then show ?thesis
    by (simp add: create_student_invalid [OF False] bad_request_def)
next
  case True
  show ?thesis
  proof (cases "store_refuses refuses (Select_group (sb_group_id b)) st")
    case r: True
    with True show ?thesis
      by (simp add: create_student_refused [OF True r] failure_def)
  next
    case r: False
    with True show ?thesis
      by (simp add: create_student_no_group [OF True r assms] failure_def)
  qed
qed

lemma examples_valid:
  "validate_student_create iso_calendar_date trim_utf8 body_unknown_group = []"
  "validate_student_create iso_calendar_date trim_utf8 body_no_name
     = [(''full_name'', ''Full name is required'')]"
  "validate_student_create iso_calendar_date trim_utf8 body_paid = []"
  "validate_student_update iso_calendar_date trim_utf8 body_rename = []"
  "validate_student_update iso_calendar_date trim_utf8 body_blank_name
     = [(''full_name'', ''Full name is required'')]"
  "validate_student_create iso_calendar_date trim_utf8 body_huge_group = []"
  "validate_student_update iso_calendar_date trim_utf8 body_rename_huge = []"
  by (simp_all add: validate_student_create_def validate_student_update_def
      body_unknown_group_def body_no_name_def body_paid_def body_rename_def body_blank_name_def
      body_huge_group_def body_rename_huge_def trim_utf8_examples
      check_def field_text_def check_iso_def iso_calendar_date_def date_form_def is_digit_def)

lemma examples_refused:
  "\<not> store_refuses refuses_nothing (Select_group (sb_group_id body_unknown_group)) store_A"
  "store_refuses refuses_nothing (Select_group (sb_group_id body_huge_group)) store_A"
  "\<not> store_refuses refuses_nothing (Update_student 1 body_rename) store_B"
  "store_refuses refuses_nothing (Update_student 1 body_rename_huge) store_B"
  by (simp_all add: store_refuses_def refuses_nothing_def binds_def int_param_ok_def
      body_unknown_group_def body_no_name_def body_huge_group_def body_rename_def
      body_rename_huge_def)

theorem create_student_unknown_group_witness:
  "map g_id (groups store_A) = [7]
   \<and> sb_group_id body_unknown_group = Int_value 99
   \<and> create_student iso_calendar_date trim_utf8 refuses_nothing clock_march
        body_unknown_group store_A
       = (failure 404 ''Group not found'', store_A)
   \<and> sb_group_id body_no_name = Int_value 99
   \<and> create_student iso_calendar_date trim_utf8 refuses_nothing clock_march
        body_no_name store_A
       = (bad_request [(''full_name'', ''Full name is required'')], store_A)
   \<and> sb_group_id body_huge_group = Int_value 10000000000000000000
   \<and> create_student iso_calendar_date trim_utf8 refuses_nothing clock_march
        body_huge_group store_A
       = (failure 500 ''Server error'', store_A)"
proof -
  have g: "map g_id (groups store_A) = [7]"
    "sb_group_id body_unknown_group = Int_value 99"
    "sb_group_id body_no_name = Int_value 99"
    "sb_group_id body_huge_group = Int_value 10000000000000000000"
    by (simp_all add: store_A_def group_G_def body_unknown_group_def body_no_name_def
        body_huge_group_def)
  have n: "\<forall>g \<in> set (groups store_A). Int_value (g_id g) \<noteq> sb_group_id body_unknown_group"
    "\<forall>g \<in> set (groups store_A). Int_value (g_id g) \<noteq> sb_group_id body_no_name"
    "\<forall>g \<in> set (groups store_A). Int_value (g_id g) \<noteq> sb_group_id body_huge_group"
    by (simp_all add: store_A_def group_G_def g)
  from create_student_unknown_group
         [OF n(1), of iso_calendar_date trim_utf8 refuses_nothing clock_march]
       examples_valid(1) examples_refused(1)
  have a: "create_student iso_calendar_date trim_utf8 refuses_nothing clock_march
        body_unknown_group store_A = (failure 404 ''Group not found'', store_A)"
    by (cases "create_student iso_calendar_date trim_utf8 refuses_nothing clock_march
        body_unknown_group store_A") simp
  from create_student_unknown_group
         [OF n(2), of iso_calendar_date trim_utf8 refuses_nothing clock_march]
       examples_valid(2)
  have b: "create_student iso_calendar_date trim_utf8 refuses_nothing clock_march
        body_no_name store_A
       = (bad_request [(''full_name'', ''Full name is required'')], store_A)"
    by (cases "create_student iso_calendar_date trim_utf8 refuses_nothing clock_march
        body_no_name store_A") simp
  from create_student_unknown_group
         [OF n(3), of iso_calendar_date trim_utf8 refuses_nothing clock_march]
       examples_valid(6) examples_refused(2)
  have c: "create_student iso_calendar_date trim_utf8 refuses_nothing clock_march
        body_huge_group store_A = (failure 500 ''Server error'', store_A)"
    by (cases "create_student iso_calendar_date trim_utf8 refuses_nothing clock_march
        body_huge_group store_A") simp
  from g a b c show ?thesis
    by (intro conjI) assumption+
qed

theorem create_student_unknown_group_counterexample:
  "map g_id (groups store_A) = [7]
   \<and> sb_group_id body_no_name = Int_value 99
   \<and> status (fst (create_student iso_calendar_date trim_utf8 refuses_nothing clock_march
                    body_no_name store_A)) = 400
   \<and> status (fst (create_student iso_calendar_date trim_utf8 refuses_nothing clock_march
                    body_no_name store_A)) \<noteq> 404
   \<and> fst (create_student iso_calendar_date trim_utf8 refuses_nothing clock_march
             body_no_name store_A)
       = bad_request [(''full_name'', ''Full name is required'')]
   \<and> sb_group_id body_huge_group = Int_value 10000000000000000000
   \<and> status (fst (create_student iso_calendar_date trim_utf8 refuses_nothing clock_march
                    body_huge_group store_A)) = 500"
proof -
  have g: "map g_id (groups store_A) = [7]" "sb_group_id body_no_name = Int_value 99"
    "sb_group_id body_huge_group = Int_value 10000000000000000000"
    by (simp_all add: store_A_def group_G_def body_no_name_def body_huge_group_def
        body_unknown_group_def)
  have i: "validate_student_create iso_calendar_date trim_utf8 body_no_name \<noteq> []"
    by (simp add: examples_valid(2))
  have a: "fst (create_student iso_calendar_date trim_utf8 refuses_nothing clock_march
             body_no_name store_A)
       = bad_request [(''full_name'', ''Full name is required'')]"
    by (simp add: create_student_invalid [OF i] examples_valid(2))
  have b: "status (fst (create_student iso_calendar_date trim_utf8 refuses_nothing
             clock_march body_huge_group store_A)) = 500"
    by (simp add: create_student_refused [OF examples_valid(6) examples_refused(2)]
        failure_def)
  from g a b show ?thesis
    by (simp add: bad_request_def)
qed

lemma map_if_key:
  assumes "y \<in> set (map (\<lambda>x. if k x = i then f x else x) xs)" and "k y = i"
  shows "\<exists>x \<in> set xs. k x = i \<and> y = f x"
proof -
  from assms(1) obtain x where x: "x \<in> set xs" and y: "y = (if k x = i then f x else x)"
    by auto
  show ?thesis
  proof (cases "k x = i")
    case True
    with x y show ?thesis by auto
  next
    case False
    with y assms(2) show ?thesis by simp
  qed
qed

lemma map_if_ids:
  assumes "\<And>x. k (f x) = k x"
  shows "map k (map (\<lambda>x. if k x = i then f x else x) xs) = map k xs"
  using assms by (induction xs) simp_all

lemma student_set_fields:
  "s_id (student_set trim now b s) = s_id s"
  "s_payment_status (student_set trim now b s) = js_or (sb_payment_status b) (Some ''unpaid'')"
  by (simp_all add: student_set_def)

lemma update_student_invalid:
  "validate_student_update isISO8601 trim b \<noteq> [] \<Longrightarrow>
   update_student isISO8601 trim refuses now i b st
     = (bad_request (validate_student_update isISO8601 trim b), st)"
  by (simp add: update_student_def Let_def)

lemma update_student_refused:
  assumes "validate_student_update isISO8601 trim b = []"
    and "store_refuses refuses (Update_student i b) st"
  shows "update_student isISO8601 trim refuses now i b st = (failure 500 ''Server error'', st)"
  using assms by (simp add: update_student_def Let_def)

lemma update_student_students:
  assumes "validate_student_update isISO8601 trim b = []"
    and "\<not> store_refuses refuses (Update_student i b) st"
  shows "students (snd (update_student isISO8601 trim refuses now i b st)) =
           map (\<lambda>s. if s_id s = i then student_set trim now b s else s) (students st)"
  using assms by (simp add: update_student_def Let_def)

lemma update_student_found:
  assumes "validate_student_update isISO8601 trim b = []"
    and "\<not> store_refuses refuses (Update_student i b) st"
    and "\<exists>s \<in> set (students st). s_id s = i"
  shows "status (fst (update_student isISO8601 trim refuses now i b st)) = 200"
proof -
  from assms(3) have "filter (\<lambda>s. s_id s = i) (students st) \<noteq> []"
    by (simp add: filter_empty_conv)
  with assms(1,2) show ?thesis
    by (simp add: update_student_def Let_def succeeded_def)
qed

lemma update_student_status:
  assumes v: "validate_student_update isISO8601 trim b = []"
    and r: "\<not> store_refuses refuses (Update_student i b) st"
    and s: "s \<in> set (students (snd (update_student isISO8601 trim refuses now i b st)))"
    and i: "s_id s = i"
  shows "s_payment_status s = js_or (sb_payment_status b) (Some ''unpaid'')"
proof -
  from s have "s \<in> set (map (\<lambda>s. if s_id s = i then student_set trim now b s else s)
                          (students st))"
    by (simp add: update_student_students [OF v r])
  from map_if_key [OF this i] obtain x where "s = student_set trim now b x"
    by blast
  then show ?thesis
    by (simp add: student_set_fields)
qed

lemma update_student_ids:
  assumes v: "validate_student_update isISO8601 trim b = []"
    and r: "\<not> store_refuses refuses (Update_student i b) st"
  shows "map s_id (students (snd (update_student isISO8601 trim refuses now i b st)))
           = map s_id (students st)"
  by (simp add: update_student_students [OF v r] map_if_ids student_set_fields del: map_map)

lemma create_student_created:
  assumes "status (fst (create_student isISO8601 trim refuses now b st)) = 201"
  shows "\<exists>row. payload (fst (create_student isISO8601 trim refuses now b st)) = Some row
           \<and> students (snd (create_student isISO8601 trim refuses now b st))
               = students st @ [row]
           \<and> payments (snd (create_student isISO8601 trim refuses now b st)) = payments st
           \<and> s_id row = next_student_id st
           \<and> s_payment_status row = js_or (sb_payment_status b) (Some ''unpaid'')"
proof (cases "validate_student_create isISO8601 trim b = []")
  case False
  from assms show ?thesis
    by (simp add: create_student_invalid [OF False] bad_request_def)
next
  case v: True
  show ?thesis
  proof (cases "store_refuses refuses (Select_group (sb_group_id b)) st")
    case True
    from assms show ?thesis
      by (simp add: create_student_refused [OF v True] failure_def)
  next
    case r: False
    show ?thesis
    proof (cases "\<exists>g \<in> set (groups st). Int_value (g_id g) = sb_group_id b")
      case False
      then have n: "\<forall>g \<in> set (groups st). Int_value (g_id g) \<noteq> sb_group_id b"
        by blast
      from assms show ?thesis
        by (simp add: create_student_no_group [OF v r n] failure_def)
    next
      case g: True
      from assms show ?thesis
        by (simp add: create_student_ok [OF v r g] Let_def succeeded_def failure_def
            split: if_splits)
    qed
  qed
qed

lemma create_paid_status:
  assumes "isISO8601 ''2024-02-01''" and "trim ''Vali Aliyev'' \<noteq> []"
    and "\<forall>q. \<not> refuses q store_A"
  shows "status (fst (create_student isISO8601 trim refuses now body_paid store_A)) = 201"
proof -
  have v: "validate_student_create isISO8601 trim body_paid = []"
    using assms(1,2)
    by (simp add: validate_student_create_def body_paid_def check_def field_text_def
        check_iso_def)
  have r: "\<not> store_refuses refuses (Select_group (sb_group_id body_paid)) store_A"
    using assms(3)
    by (simp add: store_refuses_def binds_def int_param_ok_def body_paid_def)
  have g: "\<exists>g \<in> set (groups store_A). Int_value (g_id g) = sb_group_id body_paid"
    by (simp add: store_A_def group_G_def body_paid_def)
  show ?thesis
    using assms(3)
    by (simp add: create_student_ok [OF v r g] Let_def store_refuses_def binds_def
        succeeded_def)
qed


text \<open>
  C10 (as amended). The stored \<open>payment_status\<close> of a created or updated student is the
  request's value when that is supplied and not empty, and \<open>unpaid\<close> otherwise. The
  create request \<open>body_paid\<close> with \<open>payment_status = paid\<close>, sent to a store that holds
  no payment, stores a student as paid who has no payment row (for every validator that
  accepts its date, every \<open>trim\<close> that leaves its name non-empty and every store that
  refuses nothing). An update request that passes validation, that the store does not
  refuse and that omits \<open>payment_status\<close> resets every row of a previously paid student
  to \<open>unpaid\<close>. An update request that fails validation is answered with 400, one that
  the store refuses with 500, and both leave the store as it was.
\<close>

theorem student_payment_status_from_request:
  "(isISO8601 ''2024-02-01'' \<and> trim ''Vali Aliyev'' \<noteq> [] \<and> (\<forall>q. \<not> refuses q store_A)
      \<longrightarrow> sb_payment_status body_paid = Some ''paid''
        \<and> status (fst (create_student isISO8601 trim refuses now body_paid store_A)) = 201
        \<and> map s_payment_status
              (students (snd (create_student isISO8601 trim refuses now body_paid store_A)))
            = [Some ''unpaid'', Some ''paid'']
        \<and> payments (snd (create_student isISO8601 trim refuses now body_paid store_A)) = [])
   \<and> (status (fst (create_student isISO8601 trim refuses now b st)) = 201
      \<longrightarrow> (\<exists>row. payload (fst (create_student isISO8601 trim refuses now b st)) = Some row
            \<and> students (snd (create_student isISO8601 trim refuses now b st))
                = students st @ [row]
            \<and> payments (snd (create_student isISO8601 trim refuses now b st)) = payments st
            \<and> s_payment_status row = js_or (sb_payment_status b) (Some ''unpaid'')))
   \<and> (validate_student_update isISO8601 trim b = []
        \<and> \<not> store_refuses refuses (Update_student i b) st
        \<and> sb_payment_status b = None
        \<and> (\<exists>s \<in> set (students st). s_id s = i \<and> s_payment_status s = Some ''paid'')
      \<longrightarrow> (case update_student isISO8601 trim refuses now i b st of (res, st') \<Rightarrow>
            status res = 200
          \<and> map s_id (students st') = map s_id (students st)
          \<and> (\<forall>s \<in> set (students st'). s_id s = i \<longrightarrow> s_payment_status s = Some ''unpaid'')))
   \<and> (validate_student_update isISO8601 trim b = []
        \<and> \<not> store_refuses refuses (Update_student i b) st
      \<longrightarrow> (\<forall>s \<in> set (students (snd (update_student isISO8601 trim refuses now i b st))).
            s_id s = i \<longrightarrow> s_payment_status s = js_or (sb_payment_status b) (Some ''unpaid'')))
   \<and> (validate_student_update isISO8601 trim b \<noteq> []
      \<longrightarrow> update_student isISO8601 trim refuses now i b st
            = (bad_request (validate_student_update isISO8601 trim b), st)
        \<and> status (fst (update_student isISO8601 trim refuses now i b st)) = 400)
   \<and> (validate_student_update isISO8601 trim b = []
        \<and> store_refuses refuses (Update_student i b) st
      \<longrightarrow> update_student isISO8601 trim refuses now i b st
            = (failure 500 ''Server error'', st))
   \<and> js_or None (Some ''unpaid'') = Some ''unpaid''
   \<and> js_or (Some []) (Some ''unpaid'') = Some ''unpaid''
   \<and> js_or (Some ''paid'') (Some ''unpaid'') = Some ''paid''"
proof (intro conjI impI)
  show "js_or None (Some ''unpaid'') = Some ''unpaid''"
    and "js_or (Some []) (Some ''unpaid'') = Some ''unpaid''"
    and "js_or (Some ''paid'') (Some ''unpaid'') = Some ''paid''"
    by (simp_all add: js_or_def)
next
  assume a: "isISO8601 ''2024-02-01'' \<and> trim ''Vali Aliyev'' \<noteq> []
     \<and> (\<forall>q. \<not> refuses q store_A)"
  then have c: "status (fst (create_student isISO8601 trim refuses now body_paid store_A)) = 201"
    using create_paid_status by blast
  then show "status (fst (create_student isISO8601 trim refuses now body_paid store_A)) = 201" .
  show "sb_payment_status body_paid = Some ''paid''"
    by (simp add: body_paid_def)
  from create_student_created [OF c] obtain row where
    row: "students (snd (create_student isISO8601 trim refuses now body_paid store_A))
            = students store_A @ [row]"
      "payments (snd (create_student isISO8601 trim refuses now body_paid store_A))
            = payments store_A"
      "s_payment_status row = js_or (sb_payment_status body_paid) (Some ''unpaid'')"
    by blast
  from row(2)
  show "payments (snd (create_student isISO8601 trim refuses now body_paid store_A)) = []"
    by (simp add: store_A_def)
  from row(1,3)
  show "map s_payment_status
          (students (snd (create_student isISO8601 trim refuses now body_paid store_A)))
        = [Some ''unpaid'', Some ''paid'']"
    by (simp add: store_A_def student_S_def body_paid_def js_or_def)
next
  assume "status (fst (create_student isISO8601 trim refuses now b st)) = 201"
  from create_student_created [OF this]
  show "\<exists>row. payload (fst (create_student isISO8601 trim refuses now b st)) = Some row
            \<and> students (snd (create_student isISO8601 trim refuses now b st))
                = students st @ [row]
            \<and> payments (snd (create_student isISO8601 trim refuses now b st)) = payments st
            \<and> s_payment_status row = js_or (sb_payment_status b) (Some ''unpaid'')"
    by blast
next
  assume a: "validate_student_update isISO8601 trim b = []
        \<and> \<not> store_refuses refuses (Update_student i b) st
        \<and> sb_payment_status b = None
        \<and> (\<exists>s \<in> set (students st). s_id s = i \<and> s_payment_status s = Some ''paid'')"
  then have v: "validate_student_update isISO8601 trim b = []"
    and r: "\<not> store_refuses refuses (Update_student i b) st"
    and n: "sb_payment_status b = None"
    and e: "\<exists>s \<in> set (students st). s_id s = i"
    by auto
  have "\<forall>s \<in> set (students (snd (update_student isISO8601 trim refuses now i b st))).
          s_id s = i \<longrightarrow> s_payment_status s = Some ''unpaid''"
    using update_student_status [OF v r] n by (simp add: js_or_def)
  with update_student_found [OF v r e] update_student_ids [OF v r]
  show "case update_student isISO8601 trim refuses now i b st of (res, st') \<Rightarrow>
            status res = 200
          \<and> map s_id (students st') = map s_id (students st)
          \<and> (\<forall>s \<in> set (students st'). s_id s = i \<longrightarrow> s_payment_status s = Some ''unpaid'')"
    by (simp add: case_prod_beta)
next
  assume "validate_student_update isISO8601 trim b = []
        \<and> \<not> store_refuses refuses (Update_student i b) st"
  then show "\<forall>s \<in> set (students (snd (update_student isISO8601 trim refuses now i b st))).
            s_id s = i \<longrightarrow> s_payment_status s = js_or (sb_payment_status b) (Some ''unpaid'')"
    using update_student_status by blast
next
  assume i: "validate_student_update isISO8601 trim b \<noteq> []"
  show "update_student isISO8601 trim refuses now i b st
            = (bad_request (validate_student_update isISO8601 trim b), st)"
    by (rule update_student_invalid [OF i])
  show "status (fst (update_student isISO8601 trim refuses now i b st)) = 400"
    by (simp add: update_student_invalid [OF i] bad_request_def)
next
  assume "validate_student_update isISO8601 trim b = []
        \<and> store_refuses refuses (Update_student i b) st"
  then show "update_student isISO8601 trim refuses now i b st
            = (failure 500 ''Server error'', st)"
    using update_student_refused by blast
qed

theorem student_payment_status_from_request_witness:
  "iso_calendar_date ''2024-02-01'' \<and> trim_utf8 ''Vali Aliyev'' \<noteq> []
   \<and> status (fst (create_student iso_calendar_date trim_utf8 refuses_nothing clock_march
                    body_paid store_A)) = 201
   \<and> map s_payment_status
         (students (snd (create_student iso_calendar_date trim_utf8 refuses_nothing
                           clock_march body_paid store_A)))
       = [Some ''unpaid'', Some ''paid'']
   \<and> payments (snd (create_student iso_calendar_date trim_utf8 refuses_nothing clock_march
                       body_paid store_A)) = []
   \<and> validate_student_update iso_calendar_date trim_utf8 body_rename = []
   \<and> sb_payment_status body_rename = None
   \<and> map s_id (students store_B) = [1]
   \<and> map s_payment_status (students store_B) = [Some ''paid'']
   \<and> status (fst (update_student iso_calendar_date trim_utf8 refuses_nothing clock_march 1
                    body_rename store_B)) = 200
   \<and> map s_payment_status
         (students (snd (update_student iso_calendar_date trim_utf8 refuses_nothing
                           clock_march 1 body_rename store_B)))
       = [Some ''unpaid'']
   \<and> update_student iso_calendar_date trim_utf8 refuses_nothing clock_march 1
        body_blank_name store_B
       = (bad_request [(''full_name'', ''Full name is required'')], store_B)
   \<and> update_student iso_calendar_date trim_utf8 refuses_nothing clock_march 1
        body_rename_huge store_B
       = (failure 500 ''Server error'', store_B)"
proof -
  have lib: "iso_calendar_date ''2024-02-01''" "trim_utf8 ''Vali Aliyev'' \<noteq> []"
    "\<forall>q. \<not> refuses_nothing q store_A"
    by (simp_all add: iso_calendar_date_def date_form_def is_digit_def trim_utf8_examples
        refuses_nothing_def)
  have n: "sb_payment_status body_rename = None"
    by (simp add: body_rename_def)
  have sB: "map s_id (students store_B) = [1]"
    "map s_payment_status (students store_B) = [Some ''paid'']"
    by (simp_all add: store_B_def store_A_def student_S_def)
  have e: "\<exists>s \<in> set (students store_B). s_id s = 1 \<and> s_payment_status s = Some ''paid''"
    by (simp add: store_B_def store_A_def student_S_def)
  note t = student_payment_status_from_request
  from t [of iso_calendar_date trim_utf8 refuses_nothing clock_march] lib
  have c: "status (fst (create_student iso_calendar_date trim_utf8 refuses_nothing
                    clock_march body_paid store_A)) = 201
   \<and> map s_payment_status
         (students (snd (create_student iso_calendar_date trim_utf8 refuses_nothing
                           clock_march body_paid store_A)))
       = [Some ''unpaid'', Some ''paid'']
   \<and> payments (snd (create_student iso_calendar_date trim_utf8 refuses_nothing clock_march
                       body_paid store_A)) = []"
    by blast
  from t [of iso_calendar_date trim_utf8 refuses_nothing clock_march body_rename
            store_B 1]
       examples_valid(4) examples_refused(3) n e
  have r: "status (fst (update_student iso_calendar_date trim_utf8 refuses_nothing
                    clock_march 1 body_rename store_B)) = 200"
    and "map s_id (students (snd (update_student iso_calendar_date trim_utf8 refuses_nothing
                    clock_march 1 body_rename store_B))) = [1]"
    and "\<forall>s \<in> set (students (snd (update_student iso_calendar_date trim_utf8
                    refuses_nothing clock_march 1 body_rename store_B))).
          s_id s = 1 \<longrightarrow> s_payment_status s = Some ''unpaid''"
    by (simp_all add: case_prod_beta sB)
  from this(2,3) have u: "map s_payment_status
         (students (snd (update_student iso_calendar_date trim_utf8 refuses_nothing
                           clock_march 1 body_rename store_B)))
       = [Some ''unpaid'']"
    by (rule single_row)
  have "validate_student_update iso_calendar_date trim_utf8 body_blank_name \<noteq> []"
    by (simp add: examples_valid(5))
  with t [of iso_calendar_date trim_utf8 refuses_nothing clock_march body_blank_name
            store_B 1]
  have b: "update_student iso_calendar_date trim_utf8 refuses_nothing clock_march 1
        body_blank_name store_B
       = (bad_request [(''full_name'', ''Full name is required'')], store_B)"
    by (simp add: examples_valid(5))
  from t [of iso_calendar_date trim_utf8 refuses_nothing clock_march body_rename_huge
            store_B 1]
       examples_valid(7) examples_refused(4)
  have h: "update_student iso_calendar_date trim_utf8 refuses_nothing clock_march 1
        body_rename_huge store_B
       = (failure 500 ''Server error'', store_B)"
    by blast
  from lib(1,2) c examples_valid(4) n sB r u b h show ?thesis
    by (intro conjI) (erule conjunct1 | erule conjunct2 [THEN conjunct1] | erule conjunct2 [THEN conjunct2] | assumption)+
qed

theorem student_payment_status_from_request_counterexample:
  "sb_payment_status body_blank_name = None
   \<and> map s_id (students store_B) = [1]
   \<and> map s_payment_status (students store_B) = [Some ''paid'']
   \<and> status (fst (update_student iso_calendar_date trim_utf8 refuses_nothing clock_march 1
                    body_blank_name store_B)) = 400
   \<and> map s_payment_status
         (students (snd (update_student iso_calendar_date trim_utf8 refuses_nothing
                           clock_march 1 body_blank_name store_B)))
       = [Some ''paid'']
   \<and> sb_payment_status body_rename_huge = None
   \<and> validate_student_update iso_calendar_date trim_utf8 body_rename_huge = []
   \<and> status (fst (update_student iso_calendar_date trim_utf8 refuses_nothing clock_march 1
                    body_rename_huge store_B)) = 500
   \<and> map s_payment_status
         (students (snd (update_student iso_calendar_date trim_utf8 refuses_nothing
                           clock_march 1 body_rename_huge store_B)))
       = [Some ''paid'']"
proof -
  have n: "sb_payment_status body_blank_name = None" "sb_payment_status body_rename_huge = None"
    by (simp_all add: body_blank_name_def body_rename_huge_def body_rename_def)
  have sB: "map s_id (students store_B) = [1]"
    "map s_payment_status (students store_B) = [Some ''paid'']"
    by (simp_all add: store_B_def store_A_def student_S_def)
  have i: "validate_student_update iso_calendar_date trim_utf8 body_blank_name \<noteq> []"
    by (simp add: examples_valid(5))
  note a = update_student_invalid [OF i, of refuses_nothing clock_march 1 store_B]
  note b = update_student_refused [OF examples_valid(7) examples_refused(4), of clock_march]
  from n sB examples_valid(7) show ?thesis
    by (simp add: a b bad_request_def failure_def)
qed

section \<open>Properties of the update routes\<close>

lemma expense_set_row:
  "expense_set trim b e =
     \<lparr>e_id = e_id e, e_title = trim (field_text (eb_title b)), e_amount = the (eb_amount b),
      e_category = js_or (eb_category b) None,
      e_expense_date = field_text (eb_expense_date b),
      e_expense_month = take 7 (field_text (eb_expense_date b)),
      e_notes = js_or (eb_notes b) None, e_created_at = e_created_at e\<rparr>"
  by (cases e) (simp add: expense_set_def Let_def slice_0_7_def)




lemma update_expense_invalid:
  "validate_expense isISO8601 trim b \<noteq> [] \<Longrightarrow>
   update_expense isISO8601 trim refuses i b st
     = (bad_request (validate_expense isISO8601 trim b), st)"
  by (simp add: update_expense_def Let_def)





lemma examples_valid_update:
  "validate_expense iso_calendar_date trim_utf8 body_expense = []"
  "validate_group trim_utf8 body_group = []"
  "validate_expense iso_calendar_date trim_utf8 body_expense_wide = []"
  "validate_group trim_utf8 body_group_wide = []"
  "validate_expense iso_calendar_date trim_utf8 body_basic_date = []"
  by (simp_all add: validate_expense_def validate_group_def body_expense_def body_group_def
      body_expense_wide_def body_group_wide_def body_basic_date_def
      check_def check_float_min0_def trim_utf8_examples field_text_def check_iso_def
      iso_calendar_date_def date_form_def is_digit_def)






section \<open>Properties of the expense routes\<close>

lemma create_expense_valid:
  assumes "validate_expense isISO8601 trim b = []"
    and "\<not> store_refuses refuses
           (Insert_expense
             \<lparr>e_id = next_expense_id st, e_title = trim (field_text (eb_title b)),
              e_amount = the (eb_amount b), e_category = js_or (eb_category b) None,
              e_expense_date = field_text (eb_expense_date b),
              e_expense_month = take 7 (field_text (eb_expense_date b)),
              e_notes = js_or (eb_notes b) None, e_created_at = now\<rparr>) st"
  shows "create_expense isISO8601 trim refuses now b st =
     (let row = \<lparr>e_id = next_expense_id st, e_title = trim (field_text (eb_title b)),
                   e_amount = the (eb_amount b), e_category = js_or (eb_category b) None,
                   e_expense_date = field_text (eb_expense_date b),
                   e_expense_month = take 7 (field_text (eb_expense_date b)),
                   e_notes = js_or (eb_notes b) None, e_created_at = now\<rparr>
      in (succeeded 201 (Some ''Expense created successfully'') (Some row),
          st\<lparr>expenses := expenses st @ [row], next_expense_id := next_expense_id st + 1\<rparr>))"
  using assms by (simp add: create_expense_def Let_def slice_0_7_def)

lemma basic_date_created:
  "create_expense iso_calendar_date trim_utf8 refuses_nothing clock_march body_basic_date
     store_A =
   (succeeded 201 (Some ''Expense created successfully'')
      (Some \<lparr>e_id = 1, e_title = ''Rent'', e_amount = 500, e_category = None,
             e_expense_date = ''20240315'', e_expense_month = ''2024031'', e_notes = None,
             e_created_at = clock_march\<rparr>),
    store_A\<lparr>expenses :=
        [\<lparr>e_id = 1, e_title = ''Rent'', e_amount = 500, e_category = None,
          e_expense_date = ''20240315'', e_expense_month = ''2024031'', e_notes = None,
          e_created_at = clock_march\<rparr>],
      next_expense_id := 2\<rparr>)"
proof -
  have r: "\<not> store_refuses refuses_nothing (Insert_expense row) store_A" for row
    by (simp add: store_refuses_def refuses_nothing_def binds_def)
  show ?thesis
    unfolding create_expense_valid [OF examples_valid_update(5) r]
    by (simp add: Let_def body_basic_date_def body_expense_def store_A_def field_text_def
        js_or_def trim_utf8_examples)
qed

lemma basic_date_updated:
  "update_expense iso_calendar_date trim_utf8 refuses_nothing 4 body_basic_date store_E =
   (succeeded 200 (Some ''Expense updated successfully'')
      (Some \<lparr>e_id = 4, e_title = ''Rent'', e_amount = 500, e_category = None,
             e_expense_date = ''20240315'', e_expense_month = ''2024031'', e_notes = None,
             e_created_at = ''2024-03-15T12:00:00.000Z''\<rparr>),
    store_E\<lparr>expenses :=
        [\<lparr>e_id = 4, e_title = ''Rent'', e_amount = 500, e_category = None,
          e_expense_date = ''20240315'', e_expense_month = ''2024031'', e_notes = None,
          e_created_at = ''2024-03-15T12:00:00.000Z''\<rparr>]\<rparr>)"
  using examples_valid_update(5)
  by (simp add: update_expense_def Let_def store_refuses_def refuses_nothing_def binds_def
      expense_set_row body_basic_date_def body_expense_def store_E_def store_A_def
      expense_X_def field_text_def js_or_def trim_utf8_examples)

text \<open>
  C7. Both routes store as \<open>expense_month\<close> the first seven characters of the request's
  \<open>expense_date\<close> and never read a month from the request. That text is the month
  \<open>YYYY-MM\<close> only when the date is written with hyphens. The validator also accepts the
  basic form \<open>YYYYMMDD\<close>: the request \<open>body_basic_date\<close>, whose date is \<open>20240315\<close>,
  passes validation, is answered with 201 on create and 200 on update, and is stored
  with the month \<open>2024031\<close>, which is not of the form \<open>YYYY-MM\<close>; the monthly chart of
  2024 then shows no expense in any month.
\<close>

theorem expense_month_not_year_month:
  "validate_expense iso_calendar_date trim_utf8 body_basic_date = []
   \<and> eb_expense_date body_basic_date = Some ''20240315''
   \<and> status (fst (create_expense iso_calendar_date trim_utf8 refuses_nothing clock_march
        body_basic_date store_A)) = 201
   \<and> map (\<lambda>e. (e_expense_date e, e_expense_month e))
        (expenses (snd (create_expense iso_calendar_date trim_utf8 refuses_nothing
           clock_march body_basic_date store_A)))
      = [(''20240315'', ''2024031'')]
   \<and> status (fst (update_expense iso_calendar_date trim_utf8 refuses_nothing 4
        body_basic_date store_E)) = 200
   \<and> map (\<lambda>e. (e_expense_date e, e_expense_month e))
        (expenses (snd (update_expense iso_calendar_date trim_utf8 refuses_nothing 4
           body_basic_date store_E)))
      = [(''20240315'', ''2024031'')]
   \<and> \<not> matches_year_month ''2024031''
   \<and> map_option (map c_expenses)
        (payload (monthly_chart 2024 None
           (snd (create_expense iso_calendar_date trim_utf8 refuses_nothing clock_march
              body_basic_date store_A))))
      = Some [0, 0, 0, 0, 0, 0, 0, 0, 0, 0, 0, 0]"
proof -
  have d: "eb_expense_date body_basic_date = Some ''20240315''"
    by (simp add: body_basic_date_def)
  have c: "status (fst (create_expense iso_calendar_date trim_utf8 refuses_nothing
        clock_march body_basic_date store_A)) = 201"
    "map (\<lambda>e. (e_expense_date e, e_expense_month e))
        (expenses (snd (create_expense iso_calendar_date trim_utf8 refuses_nothing
           clock_march body_basic_date store_A)))
      = [(''20240315'', ''2024031'')]"
    unfolding basic_date_created by (simp_all add: succeeded_def)
  have u: "status (fst (update_expense iso_calendar_date trim_utf8 refuses_nothing 4
        body_basic_date store_E)) = 200"
    "map (\<lambda>e. (e_expense_date e, e_expense_month e))
        (expenses (snd (update_expense iso_calendar_date trim_utf8 refuses_nothing 4
           body_basic_date store_E)))
      = [(''20240315'', ''2024031'')]"
    unfolding basic_date_updated by (simp_all add: succeeded_def)
  have m: "\<not> matches_year_month ''2024031''"
    by (simp add: matches_year_month_def is_digit_def)
  have t: "monthly_totals ''2024%'' [(''2024031'', 500)] = [(''2024031'', 500)]"
    by code_simp
  have l: "map c_expenses (months_loop ''2024'' [] [(''2024031'', 500)] 1 [])
      = [0, 0, 0, 0, 0, 0, 0, 0, 0, 0, 0, 0]"
    by code_simp
  have y: "current_year 2024 None = ''2024''"
    by code_simp
  have e: "monthly_totals ''2024%'' [] = []"
    by (simp add: monthly_totals_def)
  have h: "map_option (map c_expenses)
        (payload (monthly_chart 2024 None
           (snd (create_expense iso_calendar_date trim_utf8 refuses_nothing clock_march
              body_basic_date store_A))))
      = Some [0, 0, 0, 0, 0, 0, 0, 0, 0, 0, 0, 0]"
    unfolding basic_date_created
    by (simp add: monthly_chart_def Let_def succeeded_def store_A_def y t e
        l [unfolded One_nat_def])
  from examples_valid_update(5) d c u m h show ?thesis
    by (intro conjI) assumption+
qed

section \<open>Properties of the login route\<close>

lemma login_no_user:
  assumes "validate_login trim b = []"
    and "\<forall>a \<in> set (admins st). a_username a \<noteq> trim (field_text (lb_username b))"
  shows "login trim compare generateToken b st = failure 401 ''Invalid credentials''"
proof -
  from assms(2)
  have "filter (\<lambda>a. a_username a = trim (field_text (lb_username b))) (admins st) = []"
    by (simp add: filter_empty_conv)
  with assms(1) show ?thesis
    by (simp add: login_def Let_def)
qed

lemma login_wrong_password:
  assumes "validate_login trim b = []"
    and "find (\<lambda>a. a_username a = trim (field_text (lb_username b))) (admins st) = Some a"
    and "lb_password b = Password s" and "\<not> compare s (a_password a)"
  shows "login trim compare generateToken b st = failure 401 ''Invalid credentials''"
  using assms(1,3,4) find_hd_filter [OF assms(2)]
  by (simp add: login_def Let_def bcrypt_compare_def)

lemma login_not_a_string:
  assumes "validate_login trim b = []"
    and "find (\<lambda>a. a_username a = trim (field_text (lb_username b))) (admins st) = Some a"
    and "lb_password b = Not_a_string s"
  shows "login trim compare generateToken b st = failure 500 ''Server error''"
  using assms(1,3) find_hd_filter [OF assms(2)]
  by (simp add: login_def Let_def bcrypt_compare_def)

lemma login_pool_no_user:
  assumes "validate_login_pool b = []"
    and "\<forall>a \<in> set (admins st). a_username a \<noteq> field_text (lb_username b)"
  shows "login_pool compare jwt_sign b st = failure 401 ''Invalid credentials''"
proof -
  from assms(2)
  have "filter (\<lambda>a. a_username a = field_text (lb_username b)) (admins st) = []"
    by (simp add: filter_empty_conv)
  with assms(1) show ?thesis
    by (simp add: login_pool_def Let_def)
qed

lemma login_pool_wrong_password:
  assumes "validate_login_pool b = []"
    and "find (\<lambda>a. a_username a = field_text (lb_username b)) (admins st) = Some a"
    and "lb_password b = Password s" and "\<not> compare s (a_password a)"
  shows "login_pool compare jwt_sign b st = failure 401 ''Invalid credentials''"
  using assms(1,3,4) find_hd_filter [OF assms(2)]
  by (simp add: login_pool_def Let_def bcrypt_compare_def)

lemma login_pool_not_a_string:
  assumes "validate_login_pool b = []"
    and "find (\<lambda>a. a_username a = field_text (lb_username b)) (admins st) = Some a"
    and "lb_password b = Not_a_string s"
  shows "login_pool compare jwt_sign b st = failure 500 ''Server error''"
  using assms(1,3) find_hd_filter [OF assms(2)]
  by (simp add: login_pool_def Let_def bcrypt_compare_def)

lemma examples_login:
  "validate_login trim_utf8 attempt_ghost_number = []"
  "validate_login trim_utf8 attempt_root_number = []"
  "validate_login_pool attempt_ghost_number = []"
  "validate_login_pool attempt_root_number = []"
  "trim_utf8 (field_text (lb_username attempt_ghost_number)) = ''ghost''"
  "trim_utf8 (field_text (lb_username attempt_root_number)) = ''root''"
  "field_text (lb_username attempt_ghost_number) = ''ghost''"
  "field_text (lb_username attempt_root_number) = ''root''"
  "lb_password attempt_root_number = Not_a_string ''123''"
  "admins store_L = [admin_root]"
  "a_username admin_root = ''root''"
  by (simp_all add: validate_login_def validate_login_pool_def attempt_ghost_number_def
      attempt_root_number_def check_def trim_utf8_examples field_text_def password_text_def
      store_L_def store_A_def admin_root_def)

text \<open>
  C9. A login attempt with a password that is a string is answered with 401 and
  "Invalid credentials" both when no admin has the user name and when the stored hash
  rejects the password. The password is validated with \<open>notEmpty()\<close> only, so a request
  may carry a password that is not a string, such as the number 123. Such an attempt is
  answered with 401 when no admin has the user name, but with 500 and "Server error"
  when an admin has it, because the hash comparison throws: the two answers tell the
  caller whether the account exists. This holds in both versions of the route, for
  every hash comparison and token issuer.
\<close>

theorem login_number_password_reveals_account:
  "validate_login trim_utf8 attempt_ghost_number = []
   \<and> validate_login trim_utf8 attempt_root_number = []
   \<and> lb_password attempt_ghost_number = lb_password attempt_root_number
   \<and> map a_username (admins store_L) = [''root'']
   \<and> login trim_utf8 compare generateToken attempt_ghost_number store_L
       = failure 401 ''Invalid credentials''
   \<and> login trim_utf8 compare generateToken attempt_root_number store_L
       = failure 500 ''Server error''
   \<and> status (login trim_utf8 compare generateToken attempt_ghost_number store_L)
       \<noteq> status (login trim_utf8 compare generateToken attempt_root_number store_L)
   \<and> validate_login_pool attempt_ghost_number = []
   \<and> validate_login_pool attempt_root_number = []
   \<and> login_pool compare jwt_sign attempt_ghost_number store_L
       = failure 401 ''Invalid credentials''
   \<and> login_pool compare jwt_sign attempt_root_number store_L
       = failure 500 ''Server error''
   \<and> status (login_pool compare jwt_sign attempt_ghost_number store_L)
       \<noteq> status (login_pool compare jwt_sign attempt_root_number store_L)"
proof -
  have p: "lb_password attempt_ghost_number = lb_password attempt_root_number"
    by (simp add: attempt_ghost_number_def attempt_root_number_def)
  have u: "map a_username (admins store_L) = [''root'']"
    by (simp add: examples_login)
  have g: "login trim_utf8 compare generateToken attempt_ghost_number store_L
       = failure 401 ''Invalid credentials''"
    by (rule login_no_user) (simp_all add: examples_login trim_utf8_examples)
  have r: "login trim_utf8 compare generateToken attempt_root_number store_L
       = failure 500 ''Server error''"
    by (rule login_not_a_string [where a = admin_root and s = "''123''"])
      (simp_all add: examples_login trim_utf8_examples)
  have gp: "login_pool compare jwt_sign attempt_ghost_number store_L
       = failure 401 ''Invalid credentials''"
    by (rule login_pool_no_user) (simp_all add: examples_login trim_utf8_examples)
  have rp: "login_pool compare jwt_sign attempt_root_number store_L
       = failure 500 ''Server error''"
    by (rule login_pool_not_a_string [where a = admin_root and s = "''123''"])
      (simp_all add: examples_login trim_utf8_examples)
  have d: "status (login trim_utf8 compare generateToken attempt_ghost_number store_L)
       \<noteq> status (login trim_utf8 compare generateToken attempt_root_number store_L)"
    "status (login_pool compare jwt_sign attempt_ghost_number store_L)
       \<noteq> status (login_pool compare jwt_sign attempt_root_number store_L)"
    unfolding g r gp rp by (simp_all add: failure_def)
  from examples_login(1-4) p u g r gp rp d show ?thesis
    by (intro conjI) assumption+
qed

section \<open>Properties of the monthly chart\<close>

lemma months_loop_unrolled:
  "months_loop y inc ex i ms = ms @ map (chart_month y inc ex) [i..<13]"
proof (induction y inc ex i ms rule: months_loop.induct)
  case (1 y inc ex i ms)
  show ?case
  proof (cases "i \<le> 12")
    case True
    then have "[i..<13] = i # [i + 1..<13]"
      by (simp add: upt_conv_Cons)
    with True 1 show ?thesis
      by (subst months_loop.simps) simp
  next
    case False
    then show ?thesis
      by (subst months_loop.simps) simp
  qed
qed

lemma month_numbers:
  "map (\<lambda>i. padStart 2 (CHR ''0'') (string_of_nat i)) [1..<13] =
     [''01'', ''02'', ''03'', ''04'', ''05'', ''06'', ''07'', ''08'', ''09'', ''10'', ''11'', ''12'']"
  by code_simp

lemma chart_month_fields:
  "c_month (chart_month y inc ex i) = y @ ''-'' @ padStart 2 (CHR ''0'') (string_of_nat i)"
  "c_profit (chart_month y inc ex i)
     = c_income (chart_month y inc ex i) - c_expenses (chart_month y inc ex i)"
  by (simp_all add: chart_month_def Let_def)

lemma chart_month_zero:
  "find (\<lambda>r. fst r = c_month (chart_month y inc ex i)) inc = None
     \<Longrightarrow> c_income (chart_month y inc ex i) = 0"
  "find (\<lambda>r. fst r = c_month (chart_month y inc ex i)) ex = None
     \<Longrightarrow> c_expenses (chart_month y inc ex i) = 0"
  by (simp_all add: chart_month_def Let_def)

lemma monthly_totals_keys:
  "r \<in> set (monthly_totals pattern rows) \<Longrightarrow> fst r \<in> fst ` set rows"
  by (force simp: monthly_totals_def Let_def)

lemma find_monthly_totals_none:
  assumes "\<forall>r \<in> set rows. fst r \<noteq> m"
  shows "find (\<lambda>r. fst r = m) (monthly_totals pattern rows) = None"
proof -
  have "\<not> (\<exists>r \<in> set (monthly_totals pattern rows). fst r = m)"
    using assms monthly_totals_keys by fastforce
  then show ?thesis
    by (force simp: find_None_iff)
qed

lemma monthly_chart_months:
  "monthly_chart fullYear year st =
     succeeded 200 None
       (Some (map (chart_month (current_year fullYear year)
                 (monthly_totals (current_year fullYear year @ ''%'')
                    (map (\<lambda>p. (p_payment_month p, p_amount p)) (payments st)))
                 (monthly_totals (current_year fullYear year @ ''%'')
                    (map (\<lambda>e. (e_expense_month e, e_amount e)) (expenses st))))
               [1..<13]))"
  by (simp add: monthly_chart_def Let_def months_loop_unrolled)

text \<open>
  C5. For every year parameter and every store the monthly chart answers 200 with
  exactly twelve entries, labelled \<open>YYYY-01\<close> to \<open>YYYY-12\<close> in this order for the
  year text \<open>YYYY\<close> of the request (or the current year). The profit of every entry is
  its income minus its expenses; a month without a payment row has income 0, a month
  without an expense row has expenses 0, and a month with neither has profit 0 too.
\<close>

theorem monthly_chart_twelve_months:
  "\<exists>months. monthly_chart fullYear year st = succeeded 200 None (Some months)
     \<and> length months = 12
     \<and> map c_month months =
         map (\<lambda>mm. current_year fullYear year @ ''-'' @ mm)
           [''01'', ''02'', ''03'', ''04'', ''05'', ''06'', ''07'', ''08'', ''09'', ''10'',
            ''11'', ''12'']
     \<and> (\<forall>e \<in> set months. c_profit e = c_income e - c_expenses e)
     \<and> (\<forall>e \<in> set months.
           (\<forall>p \<in> set (payments st). p_payment_month p \<noteq> c_month e)
             \<longrightarrow> c_income e = 0)
     \<and> (\<forall>e \<in> set months.
           (\<forall>x \<in> set (expenses st). e_expense_month x \<noteq> c_month e)
             \<longrightarrow> c_expenses e = 0)
     \<and> (\<forall>e \<in> set months.
           (\<forall>p \<in> set (payments st). p_payment_month p \<noteq> c_month e)
           \<and> (\<forall>x \<in> set (expenses st). e_expense_month x \<noteq> c_month e)
             \<longrightarrow> c_income e = 0 \<and> c_expenses e = 0 \<and> c_profit e = 0)"
proof -
  define y where "y = current_year fullYear year"
  define inc where "inc = monthly_totals (y @ ''%'')
                    (map (\<lambda>p. (p_payment_month p, p_amount p)) (payments st))"
  define ex where "ex = monthly_totals (y @ ''%'')
                    (map (\<lambda>e. (e_expense_month e, e_amount e)) (expenses st))"
  define months where "months = map (chart_month y inc ex) [1..<13]"
  have res: "monthly_chart fullYear year st = succeeded 200 None (Some months)"
    by (simp add: monthly_chart_months months_def inc_def ex_def y_def)
  have len: "length months = 12"
    by (simp add: months_def)
  have "map c_month months
          = map (\<lambda>mm. y @ ''-'' @ mm)
              (map (\<lambda>i. padStart 2 (CHR ''0'') (string_of_nat i)) [1..<13])"
    by (simp add: months_def chart_month_fields(1) del: upt_Suc)
  then have names: "map c_month months =
         map (\<lambda>mm. y @ ''-'' @ mm)
           [''01'', ''02'', ''03'', ''04'', ''05'', ''06'', ''07'', ''08'', ''09'', ''10'',
            ''11'', ''12'']"
    by (simp only: month_numbers)
  have profit: "\<forall>e \<in> set months. c_profit e = c_income e - c_expenses e"
    by (auto simp: months_def chart_month_fields(2))
  have income: "c_income e = 0"
    if e: "e \<in> set months" and none: "\<forall>p \<in> set (payments st). p_payment_month p \<noteq> c_month e"
    for e
  proof -
    from e obtain i where i: "e = chart_month y inc ex i"
      by (auto simp: months_def)
    from none have "\<forall>r \<in> set (map (\<lambda>p. (p_payment_month p, p_amount p)) (payments st)).
        fst r \<noteq> c_month e"
      by simp
    then have "find (\<lambda>r. fst r = c_month e) inc = None"
      unfolding inc_def by (rule find_monthly_totals_none)
    with i show ?thesis
      using chart_month_zero(1) by blast
  qed
  have expenses: "c_expenses e = 0"
    if e: "e \<in> set months" and none: "\<forall>x \<in> set (expenses st). e_expense_month x \<noteq> c_month e"
    for e
  proof -
    from e obtain i where i: "e = chart_month y inc ex i"
      by (auto simp: months_def)
    from none have "\<forall>r \<in> set (map (\<lambda>e. (e_expense_month e, e_amount e)) (expenses st)).
        fst r \<noteq> c_month e"
      by simp
    then have "find (\<lambda>r. fst r = c_month e) ex = None"
      unfolding ex_def by (rule find_monthly_totals_none)
    with i show ?thesis
      using chart_month_zero(2) by blast
  qed
  from profit income expenses
  have zero: "\<forall>e \<in> set months.
           (\<forall>p \<in> set (payments st). p_payment_month p \<noteq> c_month e)
           \<and> (\<forall>x \<in> set (expenses st). e_expense_month x \<noteq> c_month e)
             \<longrightarrow> c_income e = 0 \<and> c_expenses e = 0 \<and> c_profit e = 0"
    by simp
  from res len names profit income expenses zero show ?thesis
    unfolding y_def by blast
qed


theorem monthly_chart_twelve_months_witness:
  "map p_payment_month (payments store_M) = [''2024-03'']
   \<and> map e_expense_month (expenses store_M) = [''2024-03'']
   \<and> (\<exists>months. monthly_chart 2024 (Some ''2024'') store_M = succeeded 200 None (Some months)
         \<and> length months = 12
         \<and> map c_month months =
             [''2024-01'', ''2024-02'', ''2024-03'', ''2024-04'', ''2024-05'', ''2024-06'',
              ''2024-07'', ''2024-08'', ''2024-09'', ''2024-10'', ''2024-11'', ''2024-12'']
         \<and> c_income (months ! 0) = 0 \<and> c_expenses (months ! 0) = 0
         \<and> c_profit (months ! 0) = 0
         \<and> c_profit (months ! 2) = c_income (months ! 2) - c_expenses (months ! 2))"
proof -
  have rows: "map p_payment_month (payments store_M) = [''2024-03'']"
    "map e_expense_month (expenses store_M) = [''2024-03'']"
    by (simp_all add: store_M_def store_B_def store_A_def payment_of_def expense_X_def)
  have none: "\<forall>p \<in> set (payments store_M). p_payment_month p \<noteq> ''2024-01''"
    "\<forall>x \<in> set (expenses store_M). e_expense_month x \<noteq> ''2024-01''"
    by (simp_all add: store_M_def store_B_def store_A_def payment_of_def expense_X_def)
  have y: "map (\<lambda>mm. current_year 2024 (Some ''2024'') @ ''-'' @ mm)
           [''01'', ''02'', ''03'', ''04'', ''05'', ''06'', ''07'', ''08'', ''09'', ''10'',
            ''11'', ''12''] =
             [''2024-01'', ''2024-02'', ''2024-03'', ''2024-04'', ''2024-05'', ''2024-06'',
              ''2024-07'', ''2024-08'', ''2024-09'', ''2024-10'', ''2024-11'', ''2024-12'']"
    by (simp add: current_year_def)
  from monthly_chart_twelve_months [of 2024 "Some ''2024''" store_M]
  obtain months where m:
    "monthly_chart 2024 (Some ''2024'') store_M = succeeded 200 None (Some months)
     \<and> length months = 12
     \<and> map c_month months =
         map (\<lambda>mm. current_year 2024 (Some ''2024'') @ ''-'' @ mm)
           [''01'', ''02'', ''03'', ''04'', ''05'', ''06'', ''07'', ''08'', ''09'', ''10'',
            ''11'', ''12'']
     \<and> (\<forall>e \<in> set months. c_profit e = c_income e - c_expenses e)
     \<and> (\<forall>e \<in> set months.
           (\<forall>p \<in> set (payments store_M). p_payment_month p \<noteq> c_month e)
             \<longrightarrow> c_income e = 0)
     \<and> (\<forall>e \<in> set months.
           (\<forall>x \<in> set (expenses store_M). e_expense_month x \<noteq> c_month e)
             \<longrightarrow> c_expenses e = 0)
     \<and> (\<forall>e \<in> set months.
           (\<forall>p \<in> set (payments store_M). p_payment_month p \<noteq> c_month e)
           \<and> (\<forall>x \<in> set (expenses store_M). e_expense_month x \<noteq> c_month e)
             \<longrightarrow> c_income e = 0 \<and> c_expenses e = 0 \<and> c_profit e = 0)" ..
  note res = m [THEN conjunct1]
  note len = m [THEN conjunct2, THEN conjunct1]
  note names = m [THEN conjunct2, THEN conjunct2, THEN conjunct1, unfolded y]
  note profit = m [THEN conjunct2, THEN conjunct2, THEN conjunct2, THEN conjunct1]
  note zero = m [THEN conjunct2, THEN conjunct2, THEN conjunct2, THEN conjunct2,
    THEN conjunct2, THEN conjunct2]
  from len have mem: "months ! 0 \<in> set months" "months ! 2 \<in> set months"
    by simp_all
  from len have "map c_month months ! 0 = c_month (months ! 0)"
    by (intro nth_map) simp
  with names have jan: "c_month (months ! 0) = ''2024-01''"
    by simp
  from none have none': "(\<forall>p \<in> set (payments store_M). p_payment_month p \<noteq> c_month (months ! 0))
           \<and> (\<forall>x \<in> set (expenses store_M). e_expense_month x \<noteq> c_month (months ! 0))"
    unfolding jan by (rule conjI)
  from zero mem(1)
  have "(\<forall>p \<in> set (payments store_M). p_payment_month p \<noteq> c_month (months ! 0))
           \<and> (\<forall>x \<in> set (expenses store_M). e_expense_month x \<noteq> c_month (months ! 0))
         \<longrightarrow> c_income (months ! 0) = 0 \<and> c_expenses (months ! 0) = 0
           \<and> c_profit (months ! 0) = 0"
    by (rule bspec)
  from this none'
  have z: "c_income (months ! 0) = 0 \<and> c_expenses (months ! 0) = 0
     \<and> c_profit (months ! 0) = 0"
    by (rule mp)
  from profit mem(2)
  have p: "c_profit (months ! 2) = c_income (months ! 2) - c_expenses (months ! 2)"
    by (rule bspec)
  have "monthly_chart 2024 (Some ''2024'') store_M = succeeded 200 None (Some months)
         \<and> length months = 12
         \<and> map c_month months =
             [''2024-01'', ''2024-02'', ''2024-03'', ''2024-04'', ''2024-05'', ''2024-06'',
              ''2024-07'', ''2024-08'', ''2024-09'', ''2024-10'', ''2024-11'', ''2024-12'']
         \<and> c_income (months ! 0) = 0 \<and> c_expenses (months ! 0) = 0
         \<and> c_profit (months ! 0) = 0
         \<and> c_profit (months ! 2) = c_income (months ! 2) - c_expenses (months ! 2)"
    using res len names z [THEN conjunct1] z [THEN conjunct2, THEN conjunct1]
      z [THEN conjunct2, THEN conjunct2] p
    by (intro conjI) assumption+
  then have "\<exists>months. monthly_chart 2024 (Some ''2024'') store_M
                 = succeeded 200 None (Some months)
         \<and> length months = 12
         \<and> map c_month months =
             [''2024-01'', ''2024-02'', ''2024-03'', ''2024-04'', ''2024-05'', ''2024-06'',
              ''2024-07'', ''2024-08'', ''2024-09'', ''2024-10'', ''2024-11'', ''2024-12'']
         \<and> c_income (months ! 0) = 0 \<and> c_expenses (months ! 0) = 0
         \<and> c_profit (months ! 0) = 0
         \<and> c_profit (months ! 2) = c_income (months ! 2) - c_expenses (months ! 2)"
    by (rule exI)
  with rows show ?thesis
    by (intro conjI) assumption+
qed

section \<open>The payment rate of the top-groups report\<close>

text \<open>
  C6. The argument of \<open>ROUND\<close> in the top-groups statement has type double precision,
  for which the store has no two-argument \<open>round\<close> (with a cast to numeric it would
  have one). The statement is rejected whatever the tables hold, so the route answers
  500 "Server error" and never returns the ranked groups with their payment rates.
\<close>

theorem payment_rate_round_rejected:
  "type_of rate_case = Some Double_precision
   \<and> type_of payment_rate = None
   \<and> type_of (Round (Cast rate_case Numeric) (Literal 2)) = Some Numeric
   \<and> top_groups rows = failure 500 ''Server error''
   \<and> status (top_groups rows) = 500"
  by (simp add: top_groups_def query_top_groups_def payment_rate_def rate_case_def binary_def
      round_2_def common_type_def implicit_cast_def failure_def)


end
